theory Spec2Isabelle
  imports Main "HOL-Library.Sublist"
begin

section \<open>Text helpers shared by the models\<close>

text \<open>
  Go strings are modelled as \<^typ>\<open>string\<close>.  \<open>strconv.Itoa\<close> prints an integer in
  decimal, \<open>strings.ToUpper\<close> is modelled on ASCII text (the only text a method name
  holds; on other text the library also maps the letters outside \<open>a\<close> to \<open>z\<close>), and \<open>strings.Split(s, "/")[0]\<close> is the part of \<open>s\<close> before the first slash.
\<close>

definition digit :: "nat \<Rightarrow> char" where
  "digit d = ''0123456789'' ! d"

fun nat_digits :: "nat \<Rightarrow> string" where
  "nat_digits n = (if n < 10 then [digit n] else nat_digits (n div 10) @ [digit (n mod 10)])"

declare nat_digits.simps [simp del]

definition Itoa :: "int \<Rightarrow> string" where
  "Itoa i = (if i < 0 then CHR ''-'' # nat_digits (nat (- i)) else nat_digits (nat i))"

definition upper_char :: "char \<Rightarrow> char" where
  "upper_char c =
     (case map_of (zip ''abcdefghijklmnopqrstuvwxyz'' ''ABCDEFGHIJKLMNOPQRSTUVWXYZ'') c of
        Some u \<Rightarrow> u
      | None \<Rightarrow> c)"

definition ToUpper :: "string \<Rightarrow> string" where
  "ToUpper s = map upper_char s"

definition before_slash :: "string \<Rightarrow> string" where
  "before_slash s = takeWhile (\<lambda>c. c \<noteq> CHR ''/'') s"

fun Join :: "string list \<Rightarrow> string \<Rightarrow> string" where
  "Join [] sep = []"
| "Join [x] sep = x"
| "Join (x # y # ys) sep = x @ sep @ Join (y # ys) sep"

text \<open>The lines of a document: \<open>strings.Split(doc, "\n")\<close>.\<close>

fun lines_of :: "string \<Rightarrow> string list" where
  "lines_of [] = [[]]"
| "lines_of (c # cs) =
     (if c = CHR 0x0A then [] # lines_of cs
      else (case lines_of cs of [] \<Rightarrow> [[c]] | l # ls \<Rightarrow> (c # l) # ls))"

definition single_line :: "string \<Rightarrow> bool" where
  "single_line s = (CHR 0x0A \<notin> set s)"


section \<open>Permission compiler: the egress proxy ACL document\<close>

text \<open>
  Modelled from the spec: the declarations of package \<open>permissions\<close> are not among the
  sources.  \<open>network.outbound\<close> has the fields
  \<open>{insecure_allow_all, allow_transport, allow_host, allow_port}\<close>; both
  \<open>Profile.Network\<close> and \<open>NetworkPermissions.Outbound\<close> are pointers, \<open>nil\<close> is
  \<open>None\<close>.
\<close>

record OutboundNetworkPermissions =
  InsecureAllowAll :: bool
  AllowTransport :: "string list"
  AllowHost :: "string list"
  AllowPort :: "int list"

record NetworkPermissions =
  Outbound :: "OutboundNetworkPermissions option"

datatype go_error =
    NilPointerPanic
  | ClosedChannelPanic
  | NilMapPanic
  | NotFound
  | Failure string

definition error_text :: "go_error \<Rightarrow> string" where
  "error_text e = (case e of
                     Failure s \<Rightarrow> s
                   | NotFound \<Rightarrow> ''not found''
                   | NilPointerPanic \<Rightarrow> ''nil pointer dereference''
                   | NilMapPanic \<Rightarrow> ''assignment to entry in nil map''
                   | ClosedChannelPanic \<Rightarrow> ''close of closed channel'')"

text \<open>
  The three writers append to a \<open>strings.Builder\<close>; the builder is the text written so
  far.  \<open>writeOutboundACLs\<close> and \<open>writeHttpAccessRules\<close> read fields through the
  pointer they are given, so a nil pointer is a run-time panic.
\<close>

definition writeOutboundACLs :: "string \<Rightarrow> OutboundNetworkPermissions option \<Rightarrow> go_error + string" where
  "writeOutboundACLs sb outbound =
     (case outbound of
        None \<Rightarrow> Inl NilPointerPanic
      | Some ob \<Rightarrow>
          (let sb1 = (if length (AllowPort ob) > 0
                      then sb @ ''# Define allowed ports\<newline>acl allowed_ports port''
                              @ concat (map (\<lambda>port. '' '' @ Itoa port) (AllowPort ob))
                              @ ''\<newline>''
                      else sb);
               sb2 = (if length (AllowHost ob) > 0
                      then sb1 @ ''# Define allowed destinations\<newline>acl allowed_dsts dstdomain''
                               @ concat (map (\<lambda>host. '' '' @ host) (AllowHost ob))
                               @ ''\<newline>''
                      else sb1);
               sb3 = (if length (AllowTransport ob) > 0
                      then sb2 @ ''# Define allowed methods\<newline>acl allowed_methods method''
                               @ concat (map (\<lambda>method.
                                    (if ToUpper method = ''TCP'' then '' CONNECT GET POST HEAD'' else [])
                                    @ '' '' @ ToUpper method) (AllowTransport ob))
                      else sb2)
           in Inr sb3))"

definition conditions :: "OutboundNetworkPermissions \<Rightarrow> string list" where
  "conditions ob =
     (if length (AllowPort ob) > 0 then [''allowed_ports''] else [])
     @ (if length (AllowHost ob) > 0 then [''allowed_dsts''] else [])
     @ (if length (AllowTransport ob) > 0 then [''allowed_methods''] else [])"

definition writeHttpAccessRules :: "string \<Rightarrow> OutboundNetworkPermissions option \<Rightarrow> go_error + string" where
  "writeHttpAccessRules sb outbound =
     (case outbound of
        None \<Rightarrow> Inl NilPointerPanic
      | Some ob \<Rightarrow>
          (if length (conditions ob) > 0
           then Inr (sb @ ''\<newline># Define http_access rules\<newline>''
                        @ ''http_access allow '' @ Join (conditions ob) '' '' @ ''\<newline>'')
           else Inr sb))"

text \<open>
  \<open>ingressPorts\<close> is a Go map used as a set; the list holds its keys in the order the
  run-time happens to iterate them.
\<close>

definition ingress_block :: "string \<Rightarrow> string \<Rightarrow> string" where
  "ingress_block serverHostname port =
     (let portNum = before_slash port in
      ''\<newline># Reverse proxy setup for port '' @ portNum @ ''\<newline>''
      @ ''http_port '' @ portNum @ '' accel defaultsite='' @ serverHostname @ ''\<newline>''
      @ ''cache_peer '' @ serverHostname @ '' parent '' @ portNum
          @ '' 0 no-query originserver name=origin_'' @ portNum @ ''\<newline>''
      @ ''acl site_'' @ portNum @ '' dstdomain '' @ serverHostname @ '' 127.0.0.1\<newline>''
      @ ''http_access allow site_'' @ portNum @ ''\<newline>'')"

definition writeIngressProxyConfig :: "string \<Rightarrow> string list \<Rightarrow> string \<Rightarrow> string" where
  "writeIngressProxyConfig sb ingressPorts serverHostname =
     sb @ concat (map (ingress_block serverHostname) ingressPorts)"

definition squid_preamble :: "string \<Rightarrow> string" where
  "squid_preamble serverHostname =
     ''http_port 3128\<newline>''
     @ ''visible_hostname '' @ serverHostname @ ''-egress\<newline>''
     @ ''access_log stdio:/var/log/squid/access.log squid\<newline>''
     @ ''pid_filename /var/run/squid/squid.pid\<newline>''
     @ ''# Disable memory and disk caching\<newline>''
     @ ''cache deny all\<newline>''
     @ ''cache_mem 0 MB\<newline>''
     @ ''maximum_object_size 0 KB\<newline>''
     @ ''maximum_object_size_in_memory 0 KB\<newline>''
     @ ''# Don't use cache directories\<newline>''
     @ ''cache_dir null /tmp\<newline>''
     @ ''cache_store_log none\<newline>\<newline>''"

text \<open>
  The text that \<open>createTempSquidConf\<close> has in its builder when it opens the temporary
  file (\<open>sb.String()\<close>), or the panic raised while building it.  The first test is
  \<open>networkPermissions == nil || (Outbound != nil && Outbound.InsecureAllowAll)\<close>; its
  else branch calls the two writers on \<open>networkPermissions.Outbound\<close>, one after the other
  (\<open>writeRestrictedRules\<close>).
\<close>

definition allow_all_traffic :: "NetworkPermissions option \<Rightarrow> bool" where
  "allow_all_traffic networkPermissions =
     (case networkPermissions of
        None \<Rightarrow> True
      | Some np \<Rightarrow> (case Outbound np of None \<Rightarrow> False | Some ob \<Rightarrow> InsecureAllowAll ob))"

definition writeRestrictedRules :: "string \<Rightarrow> OutboundNetworkPermissions option \<Rightarrow> go_error + string" where
  "writeRestrictedRules sb outbound =
     (case writeOutboundACLs sb outbound of
        Inl e \<Rightarrow> Inl e
      | Inr sb' \<Rightarrow> writeHttpAccessRules sb' outbound)"

definition squidConfText ::
  "NetworkPermissions option \<Rightarrow> string \<Rightarrow> string list \<Rightarrow> go_error + string" where
  "squidConfText networkPermissions serverHostname ingressPorts =
     (let sb = squid_preamble serverHostname;
          r = (if allow_all_traffic networkPermissions
               then Inr (sb @ ''# Allow all traffic\<newline>http_access allow all\<newline>'')
               else (case networkPermissions of
                       None \<Rightarrow> Inl NilPointerPanic
                     | Some np \<Rightarrow> writeRestrictedRules sb (Outbound np)))
      in case r of
           Inl e \<Rightarrow> Inl e
         | Inr sb' \<Rightarrow> Inr (writeIngressProxyConfig sb' ingressPorts serverHostname
                            @ ''http_access deny all\<newline>''))"

text \<open>
  The host's temporary directory: \<open>os.CreateTemp("", "squid-*.conf")\<close> picks an unused
  name and may fail, as may the write.  A failed write leaves the created file behind.
\<close>

record tmpdir =
  files :: "(string \<times> string) list"
  tmp_serial :: nat
  create_fails :: bool
  write_fails :: bool

definition createTempSquidConf ::
  "tmpdir \<Rightarrow> NetworkPermissions option \<Rightarrow> string \<Rightarrow> string list \<Rightarrow> (go_error + string) \<times> tmpdir" where
  "createTempSquidConf fs networkPermissions serverHostname ingressPorts =
     (case squidConfText networkPermissions serverHostname ingressPorts of
        Inl e \<Rightarrow> (Inl e, fs)
      | Inr doc \<Rightarrow>
          (if create_fails fs then (Inl (Failure ''create temp''), fs)
           else
             (let path = ''/tmp/squid-'' @ Itoa (int (tmp_serial fs)) @ ''.conf'' in
              if write_fails fs
              then (Inl (Failure ''failed to write to temporary file''),
                    fs\<lparr>files := (path, []) # files fs, tmp_serial := Suc (tmp_serial fs)\<rparr>)
              else (Inr path,
                    fs\<lparr>files := (path, doc) # files fs, tmp_serial := Suc (tmp_serial fs)\<rparr>))))"

text \<open>The outbound permissions that allow the single host \<open>H\<close> and restrict nothing else.\<close>

definition single_host :: "string \<Rightarrow> OutboundNetworkPermissions" where
  "single_host H = \<lparr>InsecureAllowAll = False, AllowTransport = [], AllowHost = [H], AllowPort = []\<rparr>"

text \<open>
  Auxiliary notions for reasoning about the document line by line: \<open>unlines\<close> ends each
  piece with a line feed, and the following definitions name the pieces the writers emit.
\<close>

definition unlines :: "string list \<Rightarrow> string" where
  "unlines ps = concat (map (\<lambda>p. p @ [CHR 0x0A]) ps)"

definition preamble_lines :: "string \<Rightarrow> string list" where
  "preamble_lines h = [''http_port 3128'', ''visible_hostname '' @ h @ ''-egress'',
     ''access_log stdio:/var/log/squid/access.log squid'',
     ''pid_filename /var/run/squid/squid.pid'',
     ''# Disable memory and disk caching'',
     ''cache deny all'', ''cache_mem 0 MB'', ''maximum_object_size 0 KB'',
     ''maximum_object_size_in_memory 0 KB'', ''# Don't use cache directories'',
     ''cache_dir null /tmp'', ''cache_store_log none'', []]"

definition ingress_lines :: "string \<Rightarrow> string \<Rightarrow> string list" where
  "ingress_lines h port = (let pn = before_slash port in
     [[], ''# Reverse proxy setup for port '' @ pn,
      ''http_port '' @ pn @ '' accel defaultsite='' @ h,
      ''cache_peer '' @ h @ '' parent '' @ pn @ '' 0 no-query originserver name=origin_'' @ pn,
      ''acl site_'' @ pn @ '' dstdomain '' @ h @ '' 127.0.0.1'',
      ''http_access allow site_'' @ pn])"

definition ports_line :: "int list \<Rightarrow> string" where
  "ports_line ports = ''acl allowed_ports port'' @ concat (map (\<lambda>port. '' '' @ Itoa port) ports)"

definition hosts_line :: "string list \<Rightarrow> string" where
  "hosts_line hosts = ''acl allowed_dsts dstdomain'' @ concat (map (\<lambda>host. '' '' @ host) hosts)"

definition methods_line :: "string list \<Rightarrow> string" where
  "methods_line ms = ''acl allowed_methods method'' @ concat (map (\<lambda>method.
              (if ToUpper method = ''TCP'' then '' CONNECT GET POST HEAD'' else [])
              @ '' '' @ ToUpper method) ms)"

definition access_line :: "OutboundNetworkPermissions \<Rightarrow> string" where
  "access_line ob = ''http_access allow '' @ Join (conditions ob) '' ''"

definition dst_line :: "string \<Rightarrow> string" where
  "dst_line H = ''acl allowed_dsts dstdomain '' @ H"

definition acl_pieces :: "OutboundNetworkPermissions \<Rightarrow> string list" where
  "acl_pieces ob =
     (if AllowPort ob \<noteq> [] then [''# Define allowed ports'', ports_line (AllowPort ob)] else [])
     @ (if AllowHost ob \<noteq> [] then [''# Define allowed destinations'', hosts_line (AllowHost ob)] else [])
     @ (if AllowTransport ob \<noteq> [] then [''# Define allowed methods'', methods_line (AllowTransport ob)]
        else if conditions ob \<noteq> [] then [[]] else [])
     @ (if conditions ob \<noteq> [] then [''# Define http_access rules'', access_line ob] else [])"


section \<open>Protocol bridge: the HTTP and SSE proxy\<close>

subsection \<open>Buffered channels\<close>

text \<open>
  A buffered Go channel holds the values sent and not yet received, oldest first, and has
  a fixed capacity.  Every send in the proxy is the send case of a \<open>select\<close> with a
  \<open>default\<close> branch: it appends when there is room and takes the default branch
  (\<open>None\<close>) when the buffer is full.
\<close>

record 'a chan =
  buf :: "'a list"
  cap :: nat

definition make_chan :: "nat \<Rightarrow> 'a chan" where
  "make_chan n = \<lparr>buf = [], cap = n\<rparr>"

definition try_send :: "'a chan \<Rightarrow> 'a \<Rightarrow> 'a chan option" where
  "try_send ch v = (if length (buf ch) < cap ch then Some (ch\<lparr>buf := buf ch @ [v]\<rparr>) else None)"

subsection \<open>SSE messages\<close>

text \<open>
  Modelled from the spec: package \<open>ssecommon\<close> (\<open>SSEMessage\<close>, \<open>NewSSEMessage\<close>,
  \<open>ToSSEString\<close>, \<open>NewPendingSSEMessage\<close>) is not among the sources.  The wire form of
  an event is \<open>event: <type>\n data: <payload>\n\n\<close>; a pending message is the message
  with the time it was queued, which nothing reads.
\<close>

record SSEMessage =
  EventType :: string
  Data :: string


definition ToSSEString :: "SSEMessage \<Rightarrow> string" where
  "ToSSEString m = ''event: '' @ EventType m @ ''\<newline>data: '' @ Data m @ ''\<newline>\<newline>''"

subsection \<open>The proxy\<close>

text \<open>
  \<open>sseClients\<close> is a Go map from client id to the client's message channel; the
  association list holds one pair per key, in the order \<open>range\<close> visits them.  The type
  \<open>'m\<close> is \<open>jsonrpc2.Message\<close>; the codec of that library is a parameter of the
  functions that use it (\<open>enc\<close> for \<open>jsonrpc2.EncodeMessage\<close>, \<open>dec\<close> for
  \<open>jsonrpc2.DecodeMessage\<close>).
\<close>

record 'm HTTPSSEProxy =
  sseClients :: "(string \<times> string chan) list"
  pendingMessages :: "SSEMessage list"
  messageCh :: "'m chan"
  responseCh :: "'m chan"

definition NewHTTPSSEProxy :: "'m HTTPSSEProxy" where
  "NewHTTPSSEProxy =
     \<lparr>sseClients = [], pendingMessages = [], messageCh = make_chan 100, responseCh = make_chan 100\<rparr>"

definition map_store :: "'k \<Rightarrow> 'v \<Rightarrow> ('k \<times> 'v) list \<Rightarrow> ('k \<times> 'v) list" where
  "map_store k v m =
     (case map_of m k of
        None \<Rightarrow> m @ [(k, v)]
      | Some old \<Rightarrow> map (\<lambda>(k', v'). if k' = k then (k', v) else (k', v')) m)"

definition SendMessageToDestination :: "'m HTTPSSEProxy \<Rightarrow> 'm \<Rightarrow> go_error option \<times> 'm HTTPSSEProxy" where
  "SendMessageToDestination p msg =
     (case try_send (messageCh p) msg of
        Some ch \<Rightarrow> (None, p\<lparr>messageCh := ch\<rparr>)
      | None \<Rightarrow> (Some (Failure ''failed to send message to destination''), p))"





text \<open>
  \<open>processPendingMessages\<close> sends the pending messages, oldest first, to the channel it
  is given.  The loop returns from the function at the first message that does not fit,
  before the statement that clears the list.  The result of \<open>send_pending\<close> is the
  channel and whether the loop ran to its end.
\<close>

fun send_pending :: "SSEMessage list \<Rightarrow> string chan \<Rightarrow> bool \<times> string chan" where
  "send_pending [] ch = (True, ch)"
| "send_pending (pendingMsg # rest) ch =
     (case try_send ch (ToSSEString pendingMsg) of
        Some ch' \<Rightarrow> send_pending rest ch'
      | None \<Rightarrow> (False, ch))"

definition processPendingMessages ::
  "'m HTTPSSEProxy \<Rightarrow> string \<Rightarrow> string chan \<Rightarrow> 'm HTTPSSEProxy \<times> string chan" where
  "processPendingMessages p clientID messageCh' =
     (if length (pendingMessages p) = 0 then (p, messageCh')
      else (case send_pending (pendingMessages p) messageCh' of
              (True, ch) \<Rightarrow> (p\<lparr>pendingMessages := []\<rparr>, ch)
            | (False, ch) \<Rightarrow> (p, ch)))"

text \<open>
  The part of \<open>handleSSEConnection\<close> that changes the proxy: a channel of capacity 100 is
  made and registered under the fresh client id (\<open>uuid.New()\<close>, here an argument), then the
  pending messages are processed.  The registered channel and the one handed to
  \<open>processPendingMessages\<close> are the same object, so what is sent to the latter is stored
  under the client id.  What follows in the source copies the channel to the HTTP response
  in order.
\<close>

definition handleSSEConnection :: "'m HTTPSSEProxy \<Rightarrow> string \<Rightarrow> 'm HTTPSSEProxy" where
  "handleSSEConnection p clientID =
     (let messageCh' = make_chan 100;
          p1 = p\<lparr>sseClients := map_store clientID messageCh' (sseClients p)\<rparr>;
          (p2, ch) = processPendingMessages p1 clientID messageCh'
      in p2\<lparr>sseClients := map_store clientID ch (sseClients p2)\<rparr>)"


subsection \<open>POST /messages\<close>

text \<open>
  A request as the handler reads it: the method, the value of the query parameter
  \<open>session_id\<close> (\<open>query.Get\<close> gives the empty string when the parameter is absent) and
  the outcome of \<open>io.ReadAll(r.Body)\<close>.  \<open>http.Error\<close> writes the text followed by a line
  feed.
\<close>

record request =
  Method :: string
  session_id :: string
  Body :: "go_error + string"

record response =
  Status :: nat
  Text :: string

definition http_Error :: "string \<Rightarrow> nat \<Rightarrow> response" where
  "http_Error text code = \<lparr>Status = code, Text = text @ ''\<newline>''\<rparr>"

definition handlePostRequest ::
  "(string \<Rightarrow> go_error + 'm) \<Rightarrow> 'm HTTPSSEProxy \<Rightarrow> request \<Rightarrow> response \<times> 'm HTTPSSEProxy" where
  "handlePostRequest dec p r =
     (if Method r \<noteq> ''POST'' then (http_Error ''Method not allowed'' 405, p)
      else if session_id r = [] then (http_Error ''session_id is required'' 400, p)
      else if map_of (sseClients p) (session_id r) = None
        then (http_Error ''Could not find session'' 404, p)
      else (case Body r of
              Inl e \<Rightarrow> (http_Error (''Error reading request body: '' @ error_text e) 500, p)
            | Inr body \<Rightarrow>
                (case dec body of
                   Inl e \<Rightarrow> (http_Error (''Error parsing JSON-RPC message: '' @ error_text e) 400, p)
                 | Inr msg \<Rightarrow>
                     (case SendMessageToDestination p msg of
                        (Some e, p') \<Rightarrow> (http_Error ''Failed to send message to destination'' 500, p')
                      | (None, p') \<Rightarrow> (\<lparr>Status = 202, Text = ''Accepted''\<rparr>, p')))))"


definition text_dec :: "string \<Rightarrow> go_error + string" where
  "text_dec s = Inr s"





section \<open>Protocol bridge: the stdio transport\<close>

subsection \<open>Lines read from the container's stdout\<close>

text \<open>
  The transport walks a line rune by rune (\<open>for _, c := range line\<close>), so a line is the
  list of runes that \<open>range\<close> yields.  \<open>unicode.IsPrint\<close> is a table of the Go run-time:
  on ASCII it holds exactly for \<open>0x20\<close> to \<open>0x7E\<close>; its value on the other runes is the
  parameter \<open>tbl\<close>.  \<open>isSpace\<close> is the transport's own: space and line feed.
\<close>

type_synonym rune = nat


definition IsPrint :: "(rune \<Rightarrow> bool) \<Rightarrow> rune \<Rightarrow> bool" where
  "IsPrint tbl r = (if r < 128 then 32 \<le> r \<and> r \<le> 126 else tbl r)"

definition isSpace :: "rune \<Rightarrow> bool" where
  "isSpace r = (r = 32 \<or> r = 10)"

text \<open>\<open>strings.Index\<close> and \<open>strings.LastIndex\<close> for a one-rune pattern; \<open>-1\<close> when absent.\<close>

fun Index :: "rune list \<Rightarrow> rune \<Rightarrow> int" where
  "Index [] c = - 1"
| "Index (x # xs) c = (if x = c then 0 else (let i = Index xs c in if i < 0 then - 1 else i + 1))"

definition LastIndex :: "rune list \<Rightarrow> rune \<Rightarrow> int" where
  "LastIndex xs c = (let i = Index (rev xs) c in if i < 0 then - 1 else int (length xs) - 1 - i)"

definition slice :: "'a list \<Rightarrow> int \<Rightarrow> int \<Rightarrow> 'a list" where
  "slice xs lo hi = take (nat (hi - lo)) (drop (nat lo) xs)"

definition sanitizeBinaryString :: "(rune \<Rightarrow> bool) \<Rightarrow> rune list \<Rightarrow> rune list" where
  "sanitizeBinaryString tbl input =
     (let startIdx = Index input 123
      in if startIdx = - 1 then []
         else (let endIdx = LastIndex input 125
               in if endIdx = - 1 \<or> endIdx < startIdx then []
                  else (let jsonObj = slice input startIdx (endIdx + 1)
                        in filter (\<lambda>r. IsPrint tbl r \<or> isSpace r) jsonObj)))"

definition sanitizeJSONString :: "(rune \<Rightarrow> bool) \<Rightarrow> rune list \<Rightarrow> rune list" where
  "sanitizeJSONString tbl input = sanitizeBinaryString tbl input"

definition hasBinaryData :: "(rune \<Rightarrow> bool) \<Rightarrow> rune list \<Rightarrow> bool" where
  "hasBinaryData tbl line = list_ex (\<lambda>c. \<not> IsPrint tbl c \<and> \<not> isSpace c) line"

text \<open>The text \<open>parseAndForwardJSONRPC\<close> hands to \<open>jsonrpc2.DecodeMessage\<close>.\<close>

definition jsonData :: "(rune \<Rightarrow> bool) \<Rightarrow> rune list \<Rightarrow> rune list" where
  "jsonData tbl line = (if hasBinaryData tbl line then sanitizeJSONString tbl line else line)"







subsection \<open>Stopping the transport\<close>

text \<open>
  The fields of \<open>StdioTransport\<close> that \<open>Stop\<close> reads or writes: whether \<open>shutdownCh\<close> is
  closed, and whether the monitor, the proxy, stdin and the run-time are set.  The
  teardown actions are recorded in the order they are performed.  The answer of
  \<open>runtime.IsContainerRunning\<close> is an argument; the errors of the other calls are logged
  and do not change the control flow.
\<close>

datatype teardown_event =
    MonitorStopped
  | ProxyStopped
  | StdinClosed
  | ContainerStopped string
  | ContainerRemoved string

record StdioTransport =
  shutdownCh_closed :: bool
  monitor_set :: bool
  httpProxy_set :: bool
  stdin_set :: bool
  runtime_set :: bool
  containerID :: string
  debug :: bool
  teardown :: "teardown_event list"

definition stop_monitor :: "StdioTransport \<Rightarrow> StdioTransport" where
  "stop_monitor t = (if monitor_set t
                     then t\<lparr>monitor_set := False, teardown := teardown t @ [MonitorStopped]\<rparr>
                     else t)"

definition stop_proxy :: "StdioTransport \<Rightarrow> StdioTransport" where
  "stop_proxy t = (if httpProxy_set t then t\<lparr>teardown := teardown t @ [ProxyStopped]\<rparr> else t)"

definition close_stdin :: "StdioTransport \<Rightarrow> StdioTransport" where
  "close_stdin t = (if stdin_set t
                    then t\<lparr>stdin_set := False, teardown := teardown t @ [StdinClosed]\<rparr>
                    else t)"

definition stop_container :: "go_error + bool \<Rightarrow> StdioTransport \<Rightarrow> StdioTransport" where
  "stop_container running t =
     (if runtime_set t \<and> containerID t \<noteq> []
      then (case running of
              Inl e \<Rightarrow> t
            | Inr is_running \<Rightarrow>
                (if is_running then t\<lparr>teardown := teardown t @ [ContainerStopped (containerID t)]\<rparr>
                 else t))
      else t)"

text \<open>
  \<open>Stop\<close> tests the shutdown channel before taking the mutex and again after; a closed
  channel ends the call with \<open>nil\<close>.
\<close>

definition Stop :: "go_error + bool \<Rightarrow> StdioTransport \<Rightarrow> go_error option \<times> StdioTransport" where
  "Stop running t =
     (if shutdownCh_closed t then (None, t)
      else if shutdownCh_closed t then (None, t)
      else (let t1 = t\<lparr>shutdownCh_closed := True\<rparr>;
                t2 = stop_monitor t1;
                t3 = stop_proxy t2;
                t4 = close_stdin t3;
                t5 = stop_container running t4
            in (None, t5)))"

text \<open>
  The earlier revision of the same method (package \<open>transport\<close> before the rename of the
  project) closes the channel at once; closing a closed channel panics.  There the
  container is stopped without asking whether it runs, a failure to stop it is returned,
  and the container is removed unless \<open>debug\<close> is set.
\<close>

definition Stop_earlier :: "go_error option \<Rightarrow> StdioTransport \<Rightarrow> go_error option \<times> StdioTransport" where
  "Stop_earlier stop_reply t =
     (if shutdownCh_closed t then (Some ClosedChannelPanic, t)
      else (let t1 = t\<lparr>shutdownCh_closed := True\<rparr>;
                t2 = stop_monitor t1;
                t3 = stop_proxy t2;
                t4 = close_stdin t3
            in if runtime_set t4 \<and> containerID t4 \<noteq> []
               then (let t5 = t4\<lparr>teardown := teardown t4 @ [ContainerStopped (containerID t4)]\<rparr>
                     in case stop_reply of
                          Some e \<Rightarrow> (Some (Failure ''failed to stop container''), t5)
                        | None \<Rightarrow>
                            (if \<not> debug t5
                             then (None, t5\<lparr>teardown := teardown t5 @ [ContainerRemoved (containerID t5)]\<rparr>)
                             else (None, t5)))
               else (None, t4)))"

text \<open>A transport as \<open>Start\<close> leaves it.\<close>

definition running_transport :: StdioTransport where
  "running_transport =
     \<lparr>shutdownCh_closed = False, monitor_set = True, httpProxy_set = True, stdin_set = True,
      runtime_set = True, containerID = ''c0ffee'', debug = False, teardown = []\<rparr>"


section \<open>Runtime adapter: deploying a workload\<close>

subsection \<open>Container configuration and its comparison\<close>

text \<open>
  The parts of the engine's \<open>container.Config\<close>, \<open>container.HostConfig\<close> and
  \<open>container.InspectResponse\<close> that the adapter reads or writes.  A Go map is an
  association list with one pair per key (its length is the number of keys), a Go set
  (\<open>map[K]struct{}\<close>) is the list of its keys.
\<close>

record PortBinding =
  HostIP :: string
  HostPort :: string

record Mount =
  Source :: string
  Target :: string
  ReadOnly :: bool

record ContainerConfig =
  Image :: string
  Cmd :: "string list"
  Env :: "string list"
  Labels :: "(string \<times> string) list"
  AttachStdin :: bool
  AttachStdout :: bool
  AttachStderr :: bool
  OpenStdin :: bool
  Tty :: bool
  ExposedPorts :: "string list"

record ContainerHostConfig =
  Mounts :: "Mount list"
  NetworkMode :: string
  CapAdd :: "string list"
  CapDrop :: "string list"
  SecurityOpt :: "string list"
  RestartPolicy :: string
  DNS :: "string list"
  PortBindings :: "(string \<times> PortBinding list) list"

record InspectResponse =
  ID :: string
  Name :: string
  Config :: ContainerConfig
  HostConfig :: ContainerHostConfig
  Running :: bool
  Networks :: "(string \<times> string) list"

definition map_len :: "('k \<times> 'v) list \<Rightarrow> nat" where
  "map_len m = length (remdups (map fst m))"

definition set_len :: "'k list \<Rightarrow> nat" where
  "set_len ks = length (remdups ks)"

text \<open>Every desired pair is in the existing map: the loop shared by labels and environment.\<close>

definition all_present :: "(string \<times> string) list \<Rightarrow> (string \<times> string) list \<Rightarrow> bool" where
  "all_present existing desired =
     list_all (\<lambda>(k, v). case map_of existing k of None \<Rightarrow> False | Some existingVal \<Rightarrow> existingVal = v)
       desired"

definition SplitN2 :: "string \<Rightarrow> (string \<times> string) option" where
  "SplitN2 e = (if CHR ''='' \<in> set e
                then Some (takeWhile (\<lambda>c. c \<noteq> CHR ''='') e, tl (dropWhile (\<lambda>c. c \<noteq> CHR ''='') e))
                else None)"

definition envSliceToMap :: "string list \<Rightarrow> (string \<times> string) list" where
  "envSliceToMap env =
     fold (\<lambda>e result. case SplitN2 e of Some (k, v) \<Rightarrow> map_store k v result | None \<Rightarrow> result) env []"

definition compareEnvVars :: "string list \<Rightarrow> string list \<Rightarrow> bool" where
  "compareEnvVars existingEnv desiredEnv =
     all_present (envSliceToMap existingEnv) (envSliceToMap desiredEnv)"

definition compareLabels :: "(string \<times> string) list \<Rightarrow> (string \<times> string) list \<Rightarrow> bool" where
  "compareLabels existingLabels desiredLabels = all_present existingLabels desiredLabels"

definition compareStringSlices :: "string list \<Rightarrow> string list \<Rightarrow> bool" where
  "compareStringSlices existing desired =
     (if length existing \<noteq> length desired then False
      else list_all (\<lambda>i. \<not> (i \<ge> length desired \<or> existing ! i \<noteq> desired ! i))
             [0..<length existing])"

definition compareBasicConfig :: "InspectResponse \<Rightarrow> ContainerConfig \<Rightarrow> bool" where
  "compareBasicConfig existing desired =
     (if Image (Config existing) \<noteq> Image desired then False
      else if \<not> compareStringSlices (Cmd (Config existing)) (Cmd desired) then False
      else if \<not> compareEnvVars (Env (Config existing)) (Env desired) then False
      else if \<not> compareLabels (Labels (Config existing)) (Labels desired) then False
      else if AttachStdin (Config existing) \<noteq> AttachStdin desired
            \<or> AttachStdout (Config existing) \<noteq> AttachStdout desired
            \<or> AttachStderr (Config existing) \<noteq> AttachStderr desired
            \<or> OpenStdin (Config existing) \<noteq> OpenStdin desired then False
      else True)"

definition compareHostConfig :: "InspectResponse \<Rightarrow> ContainerHostConfig \<Rightarrow> bool" where
  "compareHostConfig existing desired =
     (if NetworkMode (HostConfig existing) \<noteq> NetworkMode desired then False
      else if \<not> compareStringSlices (CapAdd (HostConfig existing)) (CapAdd desired) then False
      else if \<not> compareStringSlices (CapDrop (HostConfig existing)) (CapDrop desired) then False
      else if \<not> compareStringSlices (SecurityOpt (HostConfig existing)) (SecurityOpt desired) then False
      else if RestartPolicy (HostConfig existing) \<noteq> RestartPolicy desired then False
      else True)"

definition compareMounts :: "InspectResponse \<Rightarrow> ContainerHostConfig \<Rightarrow> bool" where
  "compareMounts existing desired =
     (if length (Mounts (HostConfig existing)) \<noteq> length (Mounts desired) then False
      else (let existingMountsMap =
                  fold (\<lambda>m acc. map_store (Target m) m acc) (Mounts (HostConfig existing)) []
            in list_all (\<lambda>desiredMount.
                  case map_of existingMountsMap (Target desiredMount) of
                    None \<Rightarrow> False
                  | Some existingMount \<Rightarrow>
                      \<not> (Source existingMount \<noteq> Source desiredMount
                         \<or> ReadOnly existingMount \<noteq> ReadOnly desiredMount))
                (Mounts desired)))"

definition bindings_match :: "PortBinding list \<Rightarrow> PortBinding list \<Rightarrow> bool" where
  "bindings_match existingBindings bindings =
     (if length existingBindings \<noteq> length bindings then False
      else list_all (\<lambda>i. \<not> (i \<ge> length existingBindings
                              \<or> HostIP (existingBindings ! i) \<noteq> HostIP (bindings ! i)
                              \<or> HostPort (existingBindings ! i) \<noteq> HostPort (bindings ! i)))
             [0..<length bindings])"

definition comparePortConfig ::
  "InspectResponse \<Rightarrow> ContainerConfig \<Rightarrow> ContainerHostConfig \<Rightarrow> bool" where
  "comparePortConfig existing desired desiredHost =
     (if set_len (ExposedPorts (Config existing)) \<noteq> set_len (ExposedPorts desired) then False
      else if \<not> list_all (\<lambda>port. port \<in> set (ExposedPorts (Config existing))) (ExposedPorts desired)
        then False
      else if map_len (PortBindings (HostConfig existing)) \<noteq> map_len (PortBindings desiredHost)
        then False
      else list_all (\<lambda>(port, bindings).
              case map_of (PortBindings (HostConfig existing)) port of
                None \<Rightarrow> False
              | Some existingBindings \<Rightarrow> bindings_match existingBindings bindings)
             (PortBindings desiredHost))"

definition compareContainerConfig ::
  "InspectResponse \<Rightarrow> ContainerConfig \<Rightarrow> ContainerHostConfig \<Rightarrow> bool" where
  "compareContainerConfig existing desired desiredHost =
     (if \<not> compareBasicConfig existing desired then False
      else if \<not> compareHostConfig existing desiredHost then False
      else if \<not> compareMounts existing desiredHost then False
      else if \<not> comparePortConfig existing desired desiredHost then False
      else True)"

subsection \<open>The engine and the host\<close>

text \<open>
  The container engine is outside the repository; the adapter reaches it through the
  calls below.  The model keeps the engine's containers and networks, the log of the
  requests sent to it, and what the host contributes otherwise: the temporary directory,
  the working directory, and the library functions \<open>nat.NewPort("tcp", _)\<close> and
  \<open>filepath.Join\<close>.  Any request may be answered with an error (\<open>rejects\<close>).
  \<open>ContainerList\<close> with a name filter returns at least the containers with that name
  (the filter matches partially), here all of them.  Addresses are assigned when the
  container is created.

  The client library checks a container id before it sends anything: for an empty id
  \<open>ContainerInspect\<close>, \<open>ContainerStart\<close>, \<open>ContainerStop\<close> and \<open>ContainerRemove\<close>
  return an invalid-parameter error, which is not a not-found error, and no request
  reaches the engine.
\<close>

datatype api_call =
    ContainerList string
  | ContainerListLabel string
  | ContainerInspect string
  | ContainerStart string
  | ContainerStop string
  | ContainerRemove string
  | ContainerCreate string ContainerConfig ContainerHostConfig "string list"
  | NetworkList string
  | NetworkCreate string bool
  | NetworkRemove string
  | ImagePull string

record network =
  net_name :: string
  net_internal :: bool
  net_labels :: "(string \<times> string) list"

record world =
  containers :: "InspectResponse list"
  networks :: "network list"
  rejects :: "api_call \<Rightarrow> bool"
  calls :: "api_call list"
  next_id :: nat
  tmp :: tmpdir
  cwd :: "go_error + string"
  new_port :: "string \<Rightarrow> go_error + string"
  join_path :: "string \<Rightarrow> string \<Rightarrow> string"

definition issue :: "api_call \<Rightarrow> world \<Rightarrow> world" where
  "issue c w = w\<lparr>calls := calls w @ [c]\<rparr>"

definition contains :: "string \<Rightarrow> string \<Rightarrow> bool" where
  "contains s sub = list_ex (\<lambda>i. prefix sub (drop i s)) [0..<Suc (length s)]"

definition TrimPrefix :: "string \<Rightarrow> string \<Rightarrow> string" where
  "TrimPrefix s p = (if prefix p s then drop (length p) s else s)"

definition engine_ContainerList :: "world \<Rightarrow> string \<Rightarrow> (go_error + InspectResponse list) \<times> world" where
  "engine_ContainerList w name =
     (if rejects w (ContainerList name) then (Inl (Failure ''engine error''), issue (ContainerList name) w)
      else (Inr (containers w), issue (ContainerList name) w))"

definition engine_ContainerListLabel :: "world \<Rightarrow> string \<Rightarrow> (go_error + InspectResponse list) \<times> world" where
  "engine_ContainerListLabel w label =
     (if rejects w (ContainerListLabel label)
      then (Inl (Failure ''engine error''), issue (ContainerListLabel label) w)
      else (Inr (filter (\<lambda>c. label \<in> set (map (\<lambda>(k, v). k @ ''='' @ v) (Labels (Config c))))
                  (containers w)),
            issue (ContainerListLabel label) w))"

definition empty_id :: go_error where
  "empty_id = Failure ''invalid container name or ID: value is empty''"

definition engine_ContainerInspect :: "world \<Rightarrow> string \<Rightarrow> (go_error + InspectResponse) \<times> world" where
  "engine_ContainerInspect w cid =
     (if cid = [] then (Inl empty_id, w)
      else if rejects w (ContainerInspect cid) then (Inl (Failure ''engine error''), issue (ContainerInspect cid) w)
      else (case find (\<lambda>c. ID c = cid) (containers w) of
              None \<Rightarrow> (Inl NotFound, issue (ContainerInspect cid) w)
            | Some c \<Rightarrow> (Inr c, issue (ContainerInspect cid) w)))"

definition set_running :: "string \<Rightarrow> bool \<Rightarrow> InspectResponse list \<Rightarrow> InspectResponse list" where
  "set_running cid b cs = map (\<lambda>c. if ID c = cid then c\<lparr>Running := b\<rparr> else c) cs"

definition engine_ContainerStart :: "world \<Rightarrow> string \<Rightarrow> (go_error + unit) \<times> world" where
  "engine_ContainerStart w cid =
     (if cid = [] then (Inl empty_id, w)
      else if rejects w (ContainerStart cid) then (Inl (Failure ''engine error''), issue (ContainerStart cid) w)
      else (case find (\<lambda>c. ID c = cid) (containers w) of
              None \<Rightarrow> (Inl NotFound, issue (ContainerStart cid) w)
            | Some c \<Rightarrow>
                (Inr (), issue (ContainerStart cid) (w\<lparr>containers := set_running cid True (containers w)\<rparr>))))"

definition engine_ContainerStop :: "world \<Rightarrow> string \<Rightarrow> (go_error + unit) \<times> world" where
  "engine_ContainerStop w cid =
     (if cid = [] then (Inl empty_id, w)
      else if rejects w (ContainerStop cid) then (Inl (Failure ''engine error''), issue (ContainerStop cid) w)
      else (case find (\<lambda>c. ID c = cid) (containers w) of
              None \<Rightarrow> (Inl NotFound, issue (ContainerStop cid) w)
            | Some c \<Rightarrow>
                (Inr (), issue (ContainerStop cid) (w\<lparr>containers := set_running cid False (containers w)\<rparr>))))"

definition engine_ContainerRemove :: "world \<Rightarrow> string \<Rightarrow> (go_error + unit) \<times> world" where
  "engine_ContainerRemove w cid =
     (if cid = [] then (Inl empty_id, w)
      else if rejects w (ContainerRemove cid) then (Inl (Failure ''engine error''), issue (ContainerRemove cid) w)
      else (case find (\<lambda>c. ID c = cid) (containers w) of
              None \<Rightarrow> (Inl NotFound, issue (ContainerRemove cid) w)
            | Some c \<Rightarrow>
                (Inr (), issue (ContainerRemove cid)
                           (w\<lparr>containers := filter (\<lambda>c. ID c \<noteq> cid) (containers w)\<rparr>))))"

definition engine_ContainerCreate ::
  "world \<Rightarrow> string \<Rightarrow> ContainerConfig \<Rightarrow> ContainerHostConfig \<Rightarrow> string list \<Rightarrow> (go_error + string) \<times> world" where
  "engine_ContainerCreate w name config hostConfig endpoints =
     (let c = ContainerCreate name config hostConfig endpoints
      in if rejects w c then (Inl (Failure ''engine error''), issue c w)
         else if list_ex (\<lambda>k. Name k = ''/'' @ name) (containers w)
           then (Inl (Failure ''name already in use''), issue c w)
         else (let cid = ''id'' @ Itoa (int (next_id w));
                   new = \<lparr>ID = cid, Name = ''/'' @ name, Config = config, HostConfig = hostConfig,
                          Running = False,
                          Networks = map (\<lambda>n. (n, ''10.0.0.'' @ Itoa (int (next_id w)))) endpoints\<rparr>
               in (Inr cid, issue c (w\<lparr>containers := containers w @ [new],
                                        next_id := Suc (next_id w)\<rparr>))))"

definition engine_NetworkList :: "world \<Rightarrow> string \<Rightarrow> (go_error + network list) \<times> world" where
  "engine_NetworkList w name =
     (if rejects w (NetworkList name) then (Inl (Failure ''engine error''), issue (NetworkList name) w)
      else (Inr (filter (\<lambda>n. contains (net_name n) name) (networks w)), issue (NetworkList name) w))"

definition engine_NetworkCreate ::
  "world \<Rightarrow> string \<Rightarrow> bool \<Rightarrow> (string \<times> string) list \<Rightarrow> (go_error + unit) \<times> world" where
  "engine_NetworkCreate w name internal labels =
     (if rejects w (NetworkCreate name internal)
      then (Inl (Failure ''engine error''), issue (NetworkCreate name internal) w)
      else (Inr (), issue (NetworkCreate name internal)
                      (w\<lparr>networks := networks w
                            @ [\<lparr>net_name = name, net_internal = internal, net_labels = labels\<rparr>]\<rparr>)))"

definition engine_NetworkRemove :: "world \<Rightarrow> string \<Rightarrow> (go_error + unit) \<times> world" where
  "engine_NetworkRemove w nid =
     (if rejects w (NetworkRemove nid) then (Inl (Failure ''engine error''), issue (NetworkRemove nid) w)
      else if list_ex (\<lambda>n. net_name n = nid) (networks w)
        then (Inr (), issue (NetworkRemove nid)
                        (w\<lparr>networks := filter (\<lambda>n. net_name n \<noteq> nid) (networks w)\<rparr>))
      else (Inl NotFound, issue (NetworkRemove nid) w))"

definition engine_ImagePull :: "world \<Rightarrow> string \<Rightarrow> (go_error + unit) \<times> world" where
  "engine_ImagePull w image' =
     (if rejects w (ImagePull image') then (Inl (Failure ''engine error''), issue (ImagePull image') w)
      else (Inr (), issue (ImagePull image') w))"

subsection \<open>Finding, stopping and removing\<close>

definition findExistingContainer :: "world \<Rightarrow> string \<Rightarrow> (go_error + string) \<times> world" where
  "findExistingContainer w name =
     (case engine_ContainerList w name of
        (Inl e, w1) \<Rightarrow> (Inl (Failure (''failed to list containers: '' @ error_text e)), w1)
      | (Inr conts, w1) \<Rightarrow>
          (case find (\<lambda>cont. Name cont = ''/'' @ name \<or> Name cont = name) conts of
             Some cont \<Rightarrow> (Inr (ID cont), w1)
           | None \<Rightarrow> (Inr [], w1)))"

definition IsWorkloadRunning :: "world \<Rightarrow> string \<Rightarrow> (go_error + bool) \<times> world" where
  "IsWorkloadRunning w workloadID =
     (case engine_ContainerInspect w workloadID of
        (Inl NotFound, w1) \<Rightarrow> (Inl NotFound, w1)
      | (Inl e, w1) \<Rightarrow> (Inl (Failure (''failed to inspect workload: '' @ error_text e)), w1)
      | (Inr info, w1) \<Rightarrow> (Inr (Running info), w1))"

text \<open>
  Stopping the side containers of a workload: the container is looked up by name and the
  stop call is issued with whatever id was found; its outcome is logged only.
\<close>

definition stop_by_name :: "world \<Rightarrow> string \<Rightarrow> world" where
  "stop_by_name w name =
     (case findExistingContainer w name of
        (Inl e, w1) \<Rightarrow> w1
      | (Inr cid, w1) \<Rightarrow> snd (engine_ContainerStop w1 cid))"

definition StopWorkload :: "world \<Rightarrow> string \<Rightarrow> go_error option \<times> world" where
  "StopWorkload w workloadID =
     (case IsWorkloadRunning w workloadID of
        (Inl NotFound, w1) \<Rightarrow> (None, w1)
      | (Inl e, w1) \<Rightarrow> (Some e, w1)
      | (Inr running, w1) \<Rightarrow>
          (if \<not> running then (None, w1)
           else (case engine_ContainerStop w1 workloadID of
                   (Inl e, w2) \<Rightarrow> (Some (Failure (''failed to stop workload: '' @ error_text e)), w2)
                 | (Inr u, w2) \<Rightarrow>
                     (case engine_ContainerInspect w2 workloadID of
                        (Inl e, w3) \<Rightarrow> (None, w3)
                      | (Inr containerResponse, w3) \<Rightarrow>
                          (let containerName = TrimPrefix (Name containerResponse) ''/'';
                               w4 = stop_by_name w3 (containerName @ ''-egress'');
                               w5 = stop_by_name w4 (containerName @ ''-dns'')
                           in (None, w5))))))"

text \<open>
  Removing a side container: \<open>Return\<close> ends \<open>RemoveWorkload\<close> with the given result,
  \<open>Continue\<close> goes on.  The id handed to \<open>ContainerRemove\<close> is whatever
  \<open>findExistingContainer\<close> returned, the empty id when there is no such container.

  \<open>RemoveWorkload\<close> only logs a failure of its first inspection and then reads
  \<open>containerResponse.Name\<close>; the name is a field of the embedded \<open>*ContainerJSONBase\<close>,
  which is \<open>nil\<close> in the zero response, so the read panics.
\<close>

datatype 'a flow = Continue | Return 'a

definition remove_by_name :: "world \<Rightarrow> string \<Rightarrow> string \<Rightarrow> go_error option flow \<times> world" where
  "remove_by_name w name what =
     (case findExistingContainer w name of
        (Inl e, w1) \<Rightarrow> (Continue, w1)
      | (Inr cid, w1) \<Rightarrow>
          (case engine_ContainerRemove w1 cid of
             (Inl NotFound, w2) \<Rightarrow> (Return None, w2)
           | (Inl e, w2) \<Rightarrow> (Return (Some (Failure (''failed to remove '' @ what @ '': '' @ error_text e))), w2)
           | (Inr u, w2) \<Rightarrow> (Continue, w2)))"

definition deleteNetwork :: "world \<Rightarrow> string \<Rightarrow> go_error option \<times> world" where
  "deleteNetwork w name =
     (case engine_NetworkList w name of
        (Inl e, w1) \<Rightarrow> (Some e, w1)
      | (Inr nets, w1) \<Rightarrow>
          (case nets of
             [] \<Rightarrow> (Some (Failure (''network '' @ name @ '' not found'')), w1)
           | n # rest \<Rightarrow>
               (case engine_NetworkRemove w1 (net_name n) of
                  (Inl e, w2) \<Rightarrow> (Some (Failure (''failed to remove network '' @ name)), w2)
                | (Inr u, w2) \<Rightarrow> (None, w2))))"

definition remove_networks :: "world \<Rightarrow> string \<Rightarrow> go_error option \<times> world" where
  "remove_networks w containerName =
     (case engine_ContainerListLabel w ''toolhive=true'' of
        (Inl e, w1) \<Rightarrow> (Some (Failure (''failed to list containers: '' @ error_text e)), w1)
      | (Inr toolHiveContainers, w1) \<Rightarrow>
          (let networkName = ''toolhive-'' @ containerName @ ''-internal'';
               w2 = snd (deleteNetwork w1 networkName);
               w3 = (if length toolHiveContainers = 0 then snd (deleteNetwork w2 ''toolhive-external'')
                     else w2)
           in (None, w3)))"

definition RemoveWorkload :: "world \<Rightarrow> string \<Rightarrow> go_error option \<times> world" where
  "RemoveWorkload w workloadID =
     (case engine_ContainerInspect w workloadID of
        (Inl e, w1) \<Rightarrow> (Some NilPointerPanic, w1)
      | (Inr containerResponse, w1) \<Rightarrow>
          (let containerName = TrimPrefix (Name containerResponse) ''/''
           in case engine_ContainerRemove w1 workloadID of
                (Inl NotFound, w2) \<Rightarrow> (None, w2)
              | (Inl e, w2) \<Rightarrow> (Some (Failure (''failed to remove workload: '' @ error_text e)), w2)
              | (Inr u, w2) \<Rightarrow>
                  (case remove_by_name w2 (containerName @ ''-egress'') ''egress container'' of
                     (Return res, w3) \<Rightarrow> (res, w3)
                   | (Continue, w3) \<Rightarrow>
                       (case remove_by_name w3 (containerName @ ''-dns'') ''dns container'' of
                          (Return res, w4) \<Rightarrow> (res, w4)
                        | (Continue, w4) \<Rightarrow> remove_networks w4 containerName))))"

subsection \<open>Creating a container, reusing one that matches\<close>

definition handleExistingContainer ::
  "world \<Rightarrow> string \<Rightarrow> ContainerConfig \<Rightarrow> ContainerHostConfig \<Rightarrow> (go_error + bool) \<times> world" where
  "handleExistingContainer w containerID' desiredConfig desiredHostConfig =
     (case engine_ContainerInspect w containerID' of
        (Inl e, w1) \<Rightarrow> (Inl (Failure (''failed to inspect container: '' @ error_text e)), w1)
      | (Inr info, w1) \<Rightarrow>
          (if compareContainerConfig info desiredConfig desiredHostConfig
           then (if \<not> Running info
                 then (case engine_ContainerStart w1 containerID' of
                         (Inl e, w2) \<Rightarrow>
                           (Inl (Failure (''failed to start existing container: '' @ error_text e)), w2)
                       | (Inr u, w2) \<Rightarrow> (Inr True, w2))
                 else (Inr True, w1))
           else (case StopWorkload w1 containerID' of
                   (Some e, w2) \<Rightarrow> (Inl e, w2)
                 | (None, w2) \<Rightarrow>
                     (case RemoveWorkload w2 containerID' of
                        (Some e, w3) \<Rightarrow> (Inl e, w3)
                      | (None, w3) \<Rightarrow> (Inr False, w3)))))"

definition create_and_start ::
  "world \<Rightarrow> string \<Rightarrow> ContainerConfig \<Rightarrow> ContainerHostConfig \<Rightarrow> string list \<Rightarrow> (go_error + string) \<times> world" where
  "create_and_start w containerName config hostConfig endpointsConfig =
     (case engine_ContainerCreate w containerName config hostConfig endpointsConfig of
        (Inl e, w1) \<Rightarrow> (Inl (Failure (''failed to create container: '' @ error_text e)), w1)
      | (Inr respID, w1) \<Rightarrow>
          (case engine_ContainerStart w1 respID of
             (Inl e, w2) \<Rightarrow> (Inl (Failure (''failed to start container: '' @ error_text e)), w2)
           | (Inr u, w2) \<Rightarrow> (Inr respID, w2)))"

definition createContainer ::
  "world \<Rightarrow> string \<Rightarrow> ContainerConfig \<Rightarrow> ContainerHostConfig \<Rightarrow> string list \<Rightarrow> (go_error + string) \<times> world" where
  "createContainer w containerName config hostConfig endpointsConfig =
     (case findExistingContainer w containerName of
        (Inl e, w1) \<Rightarrow> (Inl e, w1)
      | (Inr existingID, w1) \<Rightarrow>
          (if existingID \<noteq> []
           then (case handleExistingContainer w1 existingID config hostConfig of
                   (Inl e, w2) \<Rightarrow> (Inl e, w2)
                 | (Inr canReuse, w2) \<Rightarrow>
                     (if canReuse then (Inr existingID, w2)
                      else create_and_start w2 containerName config hostConfig endpointsConfig))
           else create_and_start w1 containerName config hostConfig endpointsConfig))"


subsection \<open>Networks and images\<close>

text \<open>
  Modelled from the spec: package \<open>labels\<close> (\<open>AddStandardLabels\<close>, \<open>AddNetworkLabels\<close>) is
  not among the sources.  Every workload-owned container carries \<open>toolhive=true\<close>,
  \<open>toolhive-name\<close>, \<open>toolhive-transport\<close> and \<open>toolhive-port\<close>; a network carries
  \<open>toolhive=true\<close> and \<open>toolhive-network-name\<close>.
\<close>

definition AddStandardLabels ::
  "(string \<times> string) list \<Rightarrow> string \<Rightarrow> string \<Rightarrow> string \<Rightarrow> int \<Rightarrow> (string \<times> string) list" where
  "AddStandardLabels labels containerName containerBaseName transportType port =
     map_store ''toolhive-port'' (Itoa port)
       (map_store ''toolhive-transport'' transportType
         (map_store ''toolhive-name'' containerName
           (map_store ''toolhive'' ''true'' labels)))"

definition AddNetworkLabels :: "(string \<times> string) list \<Rightarrow> string \<Rightarrow> (string \<times> string) list" where
  "AddNetworkLabels labels networkName =
     map_store ''toolhive-network-name'' networkName (map_store ''toolhive'' ''true'' labels)"

definition createNetwork ::
  "world \<Rightarrow> string \<Rightarrow> (string \<times> string) list \<Rightarrow> bool \<Rightarrow> go_error option \<times> world" where
  "createNetwork w name labels internal =
     (case engine_NetworkList w name of
        (Inl e, w1) \<Rightarrow> (Some (Failure (''failed to list networks: '' @ error_text e)), w1)
      | (Inr nets, w1) \<Rightarrow>
          (if length nets > 0 then (None, w1)
           else (case engine_NetworkCreate w1 name internal labels of
                   (Inl e, w2) \<Rightarrow> (Some e, w2)
                 | (Inr u, w2) \<Rightarrow> (None, w2))))"

definition createContainerNetworks :: "world \<Rightarrow> string \<Rightarrow> string \<Rightarrow> go_error option \<times> world" where
  "createContainerNetworks w internalNetworkName externalNetworkName =
     (case createNetwork w internalNetworkName (AddNetworkLabels [] internalNetworkName) True of
        (Some e, w1) \<Rightarrow> (Some (Failure (''failed to create internal network: '' @ error_text e)), w1)
      | (None, w1) \<Rightarrow>
          (case createNetwork w1 externalNetworkName (AddNetworkLabels [] externalNetworkName) False of
             (r, w2) \<Rightarrow> (None, w2)))"

definition PullImage :: "world \<Rightarrow> string \<Rightarrow> go_error option \<times> world" where
  "PullImage w imageName =
     (case engine_ImagePull w imageName of
        (Inl e, w1) \<Rightarrow> (Some (Failure (''failed to pull image: '' @ error_text e)), w1)
      | (Inr u, w1) \<Rightarrow> (None, w1))"

subsection \<open>Ports, mounts and permissions\<close>

text \<open>
  \<open>nat.NewPort("tcp", p)\<close> belongs to the engine's client library: it fails on a text it
  does not accept and otherwise gives a port of the form \<open>number/tcp\<close>.
\<close>

definition NewPort :: "world \<Rightarrow> string \<Rightarrow> go_error + string" where
  "NewPort w p = new_port w p"

fun setupExposedPorts_loop :: "world \<Rightarrow> string list \<Rightarrow> string list \<Rightarrow> go_error + string list" where
  "setupExposedPorts_loop w [] acc = Inr acc"
| "setupExposedPorts_loop w (port # rest) acc =
     (case NewPort w (before_slash port) of
        Inl e \<Rightarrow> Inl (Failure (''failed to parse port: '' @ error_text e))
      | Inr natPort \<Rightarrow>
          setupExposedPorts_loop w rest (if natPort \<in> set acc then acc else acc @ [natPort]))"

definition setupExposedPorts :: "world \<Rightarrow> ContainerConfig \<Rightarrow> string list \<Rightarrow> go_error + ContainerConfig" where
  "setupExposedPorts w config exposedPorts =
     (if length exposedPorts = 0 then Inr config
      else (case setupExposedPorts_loop w exposedPorts [] of
              Inl e \<Rightarrow> Inl e
            | Inr ports \<Rightarrow> Inr (config\<lparr>ExposedPorts := ports\<rparr>)))"

fun setupPortBindings_loop ::
  "world \<Rightarrow> (string \<times> PortBinding list) list \<Rightarrow> (string \<times> PortBinding list) list
     \<Rightarrow> go_error + (string \<times> PortBinding list) list" where
  "setupPortBindings_loop w [] acc = Inr acc"
| "setupPortBindings_loop w ((port, bindings) # rest) acc =
     (case NewPort w (before_slash port) of
        Inl e \<Rightarrow> Inl (Failure (''failed to parse port: '' @ error_text e))
      | Inr natPort \<Rightarrow> setupPortBindings_loop w rest (map_store natPort bindings acc))"

definition setupPortBindings ::
  "world \<Rightarrow> ContainerHostConfig \<Rightarrow> (string \<times> PortBinding list) list \<Rightarrow> go_error + ContainerHostConfig" where
  "setupPortBindings w hostConfig portBindings =
     (if length portBindings = 0 then Inr hostConfig
      else (case setupPortBindings_loop w portBindings [] of
              Inl e \<Rightarrow> Inl e
            | Inr m \<Rightarrow> Inr (hostConfig\<lparr>PortBindings := m\<rparr>)))"

definition convertEnvVars :: "(string \<times> string) list \<Rightarrow> string list" where
  "convertEnvVars envVars = map (\<lambda>(k, v). k @ ''='' @ v) envVars"

text \<open>
  \<open>convertMounts\<close> copies the three fields into the engine's mount type (always a bind
  mount), which the model does not distinguish from the adapter's.
\<close>

definition convertMounts :: "Mount list \<Rightarrow> Mount list" where
  "convertMounts mounts = map (\<lambda>m. \<lparr>Source = Source m, Target = Target m, ReadOnly = ReadOnly m\<rparr>) mounts"

text \<open>
  Modelled from the spec: \<open>permissions.Profile\<close> and \<open>MountDeclaration.Parse\<close> are not
  among the sources.  A mount declaration parses to a source and a target path, or fails
  to parse; it is represented by the outcome of parsing it.
\<close>

datatype MountDeclaration = MountDeclaration "go_error + string \<times> string"

record Profile =
  Read :: "MountDeclaration list"
  Write :: "MountDeclaration list"
  Network :: "NetworkPermissions option"

record PermissionConfig =
  perm_Mounts :: "Mount list"
  perm_NetworkMode :: string
  perm_CapDrop :: "string list"
  perm_CapAdd :: "string list"
  perm_SecurityOpt :: "string list"

definition convertRelativePathToAbsolute :: "world \<Rightarrow> string \<Rightarrow> string option" where
  "convertRelativePathToAbsolute w source =
     (if prefix ''/'' source then Some source
      else (case cwd w of Inl e \<Rightarrow> None | Inr dir \<Rightarrow> Some (join_path w dir source)))"

text \<open>The source and target of a declaration that is to be mounted, if it is.\<close>

definition usable_mount :: "world \<Rightarrow> MountDeclaration \<Rightarrow> (string \<times> string) option" where
  "usable_mount w mountDecl =
     (case mountDecl of
        MountDeclaration (Inl e) \<Rightarrow> None
      | MountDeclaration (Inr (source, target)) \<Rightarrow>
          (if contains source ''://'' then None
           else (case convertRelativePathToAbsolute w source of
                   None \<Rightarrow> None
                 | Some absPath \<Rightarrow> Some (absPath, target))))"

fun addReadOnlyMounts :: "world \<Rightarrow> PermissionConfig \<Rightarrow> MountDeclaration list \<Rightarrow> PermissionConfig" where
  "addReadOnlyMounts w config [] = config"
| "addReadOnlyMounts w config (mountDecl # rest) =
     (case usable_mount w mountDecl of
        None \<Rightarrow> addReadOnlyMounts w config rest
      | Some (absPath, target) \<Rightarrow>
          addReadOnlyMounts w
            (config\<lparr>perm_Mounts := perm_Mounts config
                       @ [\<lparr>Source = absPath, Target = target, ReadOnly = True\<rparr>]\<rparr>) rest)"

fun upgrade_mount :: "string \<Rightarrow> Mount list \<Rightarrow> Mount list option" where
  "upgrade_mount target [] = None"
| "upgrade_mount target (m # ms) =
     (if Target m = target then Some (m\<lparr>ReadOnly := False\<rparr> # ms)
      else map_option (\<lambda>ms'. m # ms') (upgrade_mount target ms))"

fun addReadWriteMounts :: "world \<Rightarrow> PermissionConfig \<Rightarrow> MountDeclaration list \<Rightarrow> PermissionConfig" where
  "addReadWriteMounts w config [] = config"
| "addReadWriteMounts w config (mountDecl # rest) =
     (case usable_mount w mountDecl of
        None \<Rightarrow> addReadWriteMounts w config rest
      | Some (absPath, target) \<Rightarrow>
          (case upgrade_mount target (perm_Mounts config) of
             Some mounts \<Rightarrow> addReadWriteMounts w (config\<lparr>perm_Mounts := mounts\<rparr>) rest
           | None \<Rightarrow>
               addReadWriteMounts w
                 (config\<lparr>perm_Mounts := perm_Mounts config
                            @ [\<lparr>Source = absPath, Target = target, ReadOnly = False\<rparr>]\<rparr>) rest))"

definition getPermissionConfigFromProfile ::
  "world \<Rightarrow> Profile option \<Rightarrow> string \<Rightarrow> go_error + PermissionConfig" where
  "getPermissionConfigFromProfile w profile transportType =
     (case profile of
        None \<Rightarrow> Inl NilPointerPanic
      | Some prof \<Rightarrow>
          (let config = \<lparr>perm_Mounts = [], perm_NetworkMode = ''none'', perm_CapDrop = [''ALL''],
                         perm_CapAdd = [], perm_SecurityOpt = []\<rparr>;
               config1 = addReadOnlyMounts w config (Read prof);
               config2 = addReadWriteMounts w config1 (Write prof)
           in if transportType \<noteq> ''sse'' \<and> transportType \<noteq> ''stdio'' \<and> transportType \<noteq> ''inspector''
              then Inl (Failure (''unsupported transport type: '' @ transportType))
              else Inr config2))"

subsection \<open>The egress and DNS containers\<close>

definition EgressImage :: string where
  "EgressImage = ''ubuntu/squid:latest''"

definition DnsImage :: string where
  "DnsImage = ''dockurr/dnsmasq:latest''"

definition side_config :: "string \<Rightarrow> (string \<times> string) list \<Rightarrow> bool \<Rightarrow> ContainerConfig" where
  "side_config image' labels attachStdio =
     \<lparr>Image = image', Cmd = [], Env = [], Labels = labels,
      AttachStdin = attachStdio, AttachStdout = attachStdio, AttachStderr = attachStdio,
      OpenStdin = attachStdio, Tty = False, ExposedPorts = []\<rparr>"

definition side_host_config :: "Mount list \<Rightarrow> string list \<Rightarrow> ContainerHostConfig" where
  "side_host_config mounts capAdd =
     \<lparr>Mounts = convertMounts mounts, NetworkMode = ''bridge'', CapAdd = capAdd, CapDrop = [],
      SecurityOpt = [], RestartPolicy = ''unless-stopped'', DNS = [], PortBindings = []\<rparr>"

text \<open>
  A panic is not an error value: where the source wraps an error into a new one, a panic
  passes unchanged.
\<close>

definition wrap :: "string \<Rightarrow> go_error \<Rightarrow> go_error" where
  "wrap msg e = (case e of
                   NilPointerPanic \<Rightarrow> NilPointerPanic
                 | NilMapPanic \<Rightarrow> NilMapPanic
                 | ClosedChannelPanic \<Rightarrow> ClosedChannelPanic
                 | NotFound \<Rightarrow> Failure (msg @ error_text NotFound)
                 | Failure s \<Rightarrow> Failure (msg @ s))"

definition createEgressContainers ::
  "world \<Rightarrow> string \<Rightarrow> string \<Rightarrow> string \<Rightarrow> bool \<Rightarrow> NetworkPermissions option
     \<Rightarrow> (string \<times> PortBinding list) list \<Rightarrow> string list
     \<Rightarrow> (go_error + string \<times> string \<times> string) \<times> world" where
  "createEgressContainers w containerName egressContainerName dnsContainerName attachStdio perm
       portBindings exposedPorts =
     (let egressLabels = AddStandardLabels [] egressContainerName egressContainerName ''stdio'' 80;
          dnsLabels = AddStandardLabels [] dnsContainerName dnsContainerName ''stdio'' 80
      in case PullImage w EgressImage of
           (Some e, w1) \<Rightarrow> (Inl (wrap ''failed to pull egress image: '' e), w1)
         | (None, w1) \<Rightarrow>
         (case PullImage w1 DnsImage of
            (Some e, w2) \<Rightarrow> (Inl (wrap ''failed to pull DNS image: '' e), w2)
          | (None, w2) \<Rightarrow>
         (let config = side_config EgressImage egressLabels attachStdio;
              configDns = side_config DnsImage dnsLabels attachStdio
          in case createTempSquidConf (tmp w2) perm containerName exposedPorts of
               (Inl e, fs) \<Rightarrow> (Inl (wrap ''failed to create temporary squid.conf: '' e), w2\<lparr>tmp := fs\<rparr>)
             | (Inr squidConfPath, fs) \<Rightarrow>
         (let w3 = w2\<lparr>tmp := fs\<rparr>;
              mounts = [\<lparr>Source = squidConfPath, Target = ''/etc/squid/squid.conf'', ReadOnly = True\<rparr>];
              egressHostConfig = side_host_config mounts [''CAP_SETUID'', ''CAP_SETGID''];
              dnsHostConfig = side_host_config mounts [];
              networkName = ''toolhive-'' @ containerName @ ''-internal'';
              endpointsConfig = [networkName, ''toolhive-external'']
          in case createContainer w3 dnsContainerName configDns dnsHostConfig endpointsConfig of
               (Inl e, w4) \<Rightarrow> (Inl (wrap ''failed to create dns container: '' e), w4)
             | (Inr dnsContainerId, w4) \<Rightarrow>
         (case engine_ContainerInspect w4 dnsContainerId of
            (Inl e, w5) \<Rightarrow> (Inl (wrap ''failed to inspect DNS container: '' e), w5)
          | (Inr dnsContainerResponse, w5) \<Rightarrow>
         (case map_of (Networks dnsContainerResponse) networkName of
            None \<Rightarrow> (Inl (Failure (''network '' @ networkName
                                   @ '' not found in container's network settings'')), w5)
          | Some dnsContainerIP \<Rightarrow>
         (case setupExposedPorts w5 config exposedPorts of
            Inl e \<Rightarrow> (Inl e, w5)
          | Inr config' \<Rightarrow>
         (case setupPortBindings w5 egressHostConfig portBindings of
            Inl e \<Rightarrow> (Inl e, w5)
          | Inr egressHostConfig' \<Rightarrow>
         (case createContainer w5 egressContainerName config' egressHostConfig' endpointsConfig of
            (Inl e, w6) \<Rightarrow> (Inl (wrap ''failed to create egress container: '' e), w6)
          | (Inr egressContainerId, w6) \<Rightarrow>
              (Inr (egressContainerId, dnsContainerId, dnsContainerIP), w6))))))))))"

subsection \<open>DeployWorkload\<close>

record DeployWorkloadOptions =
  opt_ExposedPorts :: "string list"
  opt_PortBindings :: "(string \<times> PortBinding list) list"
  opt_AttachStdio :: bool

definition proxy_env :: "string \<Rightarrow> (string \<times> string) list \<Rightarrow> (string \<times> string) list" where
  "proxy_env egressHost envVars =
     map_store ''no_proxy'' ''localhost,127.0.0.1,::1''
       (map_store ''NO_PROXY'' ''localhost,127.0.0.1,::1''
         (map_store ''https_proxy'' egressHost
           (map_store ''http_proxy'' egressHost
             (map_store ''HTTPS_PROXY'' egressHost
               (map_store ''HTTP_PROXY'' egressHost envVars)))))"

text \<open>
  The last part of \<open>DeployWorkload\<close>, from the extra label to the creation of the main
  container.  \<open>envVars\<close> and \<open>labels\<close> are Go maps and may be \<open>nil\<close>; storing into a nil
  map panics.
\<close>

definition deploy_main ::
  "world \<Rightarrow> string \<Rightarrow> string \<Rightarrow> string list \<Rightarrow> (string \<times> string) list option
     \<Rightarrow> (string \<times> string) list option \<Rightarrow> PermissionConfig \<Rightarrow> bool \<Rightarrow> string
     \<Rightarrow> DeployWorkloadOptions option \<Rightarrow> (go_error + string) \<times> world" where
  "deploy_main w image' name command envVars labels permissionConfig attachStdio additionalDNS options =
     (let isMcpWorkload = (name \<noteq> ''inspector'');
          networkName = ''toolhive-'' @ name @ ''-internal''
      in case labels of
           None \<Rightarrow> (Inl NilMapPanic, w)
         | Some labels0 \<Rightarrow>
         (let labels1 = map_store ''toolhive-main-workload'' ''true'' labels0;
              config = \<lparr>Image = image', Cmd = command,
                        Env = convertEnvVars (case envVars of None \<Rightarrow> [] | Some m \<Rightarrow> m),
                        Labels = labels1,
                        AttachStdin = attachStdio, AttachStdout = attachStdio,
                        AttachStderr = attachStdio, OpenStdin = attachStdio, Tty = False,
                        ExposedPorts = []\<rparr>;
              hostConfig = \<lparr>Mounts = convertMounts (perm_Mounts permissionConfig),
                            NetworkMode = perm_NetworkMode permissionConfig,
                            CapAdd = perm_CapAdd permissionConfig,
                            CapDrop = perm_CapDrop permissionConfig,
                            SecurityOpt = perm_SecurityOpt permissionConfig,
                            RestartPolicy = ''unless-stopped'',
                            DNS = (if additionalDNS \<noteq> [] then [additionalDNS] else []),
                            PortBindings = []\<rparr>;
              ported = (case options of
                          None \<Rightarrow> Inr (config, hostConfig)
                        | Some opts \<Rightarrow>
                            (case setupExposedPorts w config (opt_ExposedPorts opts) of
                               Inl e \<Rightarrow> Inl e
                             | Inr config' \<Rightarrow>
                                 (case setupPortBindings w hostConfig (opt_PortBindings opts) of
                                    Inl e \<Rightarrow> Inl e
                                  | Inr hostConfig' \<Rightarrow> Inr (config', hostConfig'))))
          in case ported of
               Inl e \<Rightarrow> (Inl e, w)
             | Inr (config', hostConfig') \<Rightarrow>
                 (let endpointsConfig = (if \<not> isMcpWorkload then [networkName, ''toolhive-external'']
                                         else [networkName])
                  in case createContainer w name config' hostConfig' endpointsConfig of
                       (Inl e, w1) \<Rightarrow> (Inl (wrap ''failed to create container: '' e), w1)
                     | (Inr containerId, w1) \<Rightarrow> (Inr containerId, w1))))"

definition DeployWorkload ::
  "world \<Rightarrow> string \<Rightarrow> string \<Rightarrow> string list \<Rightarrow> (string \<times> string) list option
     \<Rightarrow> (string \<times> string) list option \<Rightarrow> Profile option \<Rightarrow> string
     \<Rightarrow> DeployWorkloadOptions option \<Rightarrow> (go_error + string) \<times> world" where
  "DeployWorkload w image' name command envVars labels permissionProfile transportType options =
     (let isMcpWorkload = (name \<noteq> ''inspector'')
      in case getPermissionConfigFromProfile w permissionProfile transportType of
           Inl e \<Rightarrow> (Inl (wrap ''failed to get permission config: '' e), w)
         | Inr permissionConfig \<Rightarrow>
         (let attachStdio = (case options of None \<Rightarrow> True | Some opts \<Rightarrow> opt_AttachStdio opts);
              networkName = ''toolhive-'' @ name @ ''-internal''
          in case createContainerNetworks w networkName ''toolhive-external'' of
               (Some e, w1) \<Rightarrow> (Inl (wrap ''failed to create container networks: '' e), w1)
             | (None, w1) \<Rightarrow>
                 (if isMcpWorkload
                  then (let egressContainerName = name @ ''-egress'';
                            dnsContainerName = name @ ''-dns''
                        in case (permissionProfile, options) of
                             (Some prof, Some opts) \<Rightarrow>
                               (case createEgressContainers w1 name egressContainerName dnsContainerName
                                       attachStdio (Network prof) (opt_PortBindings opts)
                                       (opt_ExposedPorts opts) of
                                  (Inl e, w2) \<Rightarrow> (Inl (wrap ''failed to create egress container: '' e), w2)
                                | (Inr (egressId, dnsId, dnsContainerIP), w2) \<Rightarrow>
                                    (let egressHost = ''http://'' @ egressContainerName @ '':3128'';
                                         envVars' = Some (proxy_env egressHost
                                                      (case envVars of None \<Rightarrow> [] | Some m \<Rightarrow> m))
                                     in deploy_main w2 image' name command envVars' labels
                                          permissionConfig attachStdio dnsContainerIP options))
                           | other \<Rightarrow> (Inl NilPointerPanic, w1))
                  else deploy_main w1 image' name command envVars labels permissionConfig
                         attachStdio [] options)))"


subsection \<open>Reading the log of engine requests\<close>

text \<open>The requests an operation has added to the log.\<close>

definition added_calls :: "world \<Rightarrow> world \<Rightarrow> api_call list" where
  "added_calls w w' = drop (length (calls w)) (calls w')"

definition is_churn :: "api_call \<Rightarrow> bool" where
  "is_churn c = (case c of
                   ContainerCreate n cfg h eps \<Rightarrow> True
                 | ContainerStop cid \<Rightarrow> True
                 | ContainerRemove cid \<Rightarrow> True
                 | other \<Rightarrow> False)"

subsection \<open>Containers by name, and the networks they are attached to\<close>

text \<open>
  \<open>named name c\<close>: the container \<open>c\<close> is one that \<open>findExistingContainer\<close> accepts for
  \<open>name\<close>.  \<open>attached c\<close>: the networks of \<open>c\<close>.  \<open>keeps Q w w'\<close>: if every container
  of \<open>w\<close> satisfies \<open>Q\<close>, so does every container of \<open>w'\<close>; \<open>stable Q\<close>: \<open>Q\<close> does
  not depend on whether the container runs.
\<close>

definition named :: "string \<Rightarrow> InspectResponse \<Rightarrow> bool" where
  "named name c = (Name c = ''/'' @ name \<or> Name c = name)"

definition attached :: "InspectResponse \<Rightarrow> string list" where
  "attached c = map fst (Networks c)"

definition keeps :: "(InspectResponse \<Rightarrow> bool) \<Rightarrow> world \<Rightarrow> world \<Rightarrow> bool" where
  "keeps Q w w' = (list_all Q (containers w) \<longrightarrow> list_all Q (containers w'))"

definition stable :: "(InspectResponse \<Rightarrow> bool) \<Rightarrow> bool" where
  "stable Q = (\<forall>c b. Q (c\<lparr>Running := b\<rparr>) = Q c)"

text \<open>
  \<open>fresh_ok Q n eps\<close>: a container the engine creates under the name \<open>n\<close> on the networks
  \<open>eps\<close> satisfies \<open>Q\<close>, whatever id and address it is given.
\<close>

definition fresh_ok :: "(InspectResponse \<Rightarrow> bool) \<Rightarrow> string \<Rightarrow> string list \<Rightarrow> bool" where
  "fresh_ok Q n eps =
     (\<forall>cid ip cfg h. Q \<lparr>ID = cid, Name = ''/'' @ n, Config = cfg, HostConfig = h,
                          Running = False, Networks = map (\<lambda>e. (e, ip)) eps\<rparr>)"

subsection \<open>A first deployment\<close>

text \<open>
  An engine with no containers and no networks that answers every call, a profile that
  allows one host, and the options of a workload that exposes port 8080.
\<close>

definition fresh_world :: world where
  "fresh_world =
     \<lparr>containers = [], networks = [], rejects = (\<lambda>c. False), calls = [], next_id = 0,
      tmp = \<lparr>files = [], tmp_serial = 0, create_fails = False, write_fails = False\<rparr>,
      cwd = Inr ''/home/user'', new_port = (\<lambda>p. Inr (p @ ''/tcp'')),
      join_path = (\<lambda>dir source. dir @ ''/'' @ source)\<rparr>"

definition one_host_profile :: Profile where
  "one_host_profile =
     \<lparr>Read = [], Write = [],
      Network = Some \<lparr>Outbound = Some \<lparr>InsecureAllowAll = False, AllowTransport = [],
                                        AllowHost = [''example.com''], AllowPort = [443]\<rparr>\<rparr>\<rparr>"

definition port_options :: DeployWorkloadOptions where
  "port_options =
     \<lparr>opt_ExposedPorts = [''8080/tcp''],
      opt_PortBindings = [(''8080/tcp'', [\<lparr>HostIP = ''127.0.0.1'', HostPort = ''8080''\<rparr>])],
      opt_AttachStdio = False\<rparr>"

subsection \<open>A deployment over an existing container\<close>





text \<open>The engine after the first deployment of \<open>fetch\<close>.\<close>

definition deployed_world :: world where
  "deployed_world =
     snd (DeployWorkload fresh_world ''ghcr.io/example/fetch'' ''fetch'' [] (Some []) (Some [])
            (Some one_host_profile) ''sse'' (Some port_options))"

subsection \<open>A deployment over a container on another network\<close>

text \<open>
  An engine that holds a running container called \<open>fetch\<close> with the configuration
  \<open>DeployWorkload\<close> builds for the arguments of the first deployment, attached to the
  external network only, and no other container.
\<close>

definition stale_container :: InspectResponse where
  "stale_container =
     \<lparr>ID = ''0afc'', Name = ''/fetch'',
      Config = \<lparr>Image = ''ghcr.io/example/fetch'', Cmd = [],
                Env = [''HTTP_PROXY=http://fetch-egress:3128'', ''HTTPS_PROXY=http://fetch-egress:3128'',
                       ''http_proxy=http://fetch-egress:3128'', ''https_proxy=http://fetch-egress:3128'',
                       ''NO_PROXY=localhost,127.0.0.1,::1'', ''no_proxy=localhost,127.0.0.1,::1''],
                Labels = [(''toolhive-main-workload'', ''true'')],
                AttachStdin = False, AttachStdout = False, AttachStderr = False,
                OpenStdin = False, Tty = False, ExposedPorts = [''8080/tcp'']\<rparr>,
      HostConfig = \<lparr>Mounts = [], NetworkMode = ''none'', CapAdd = [], CapDrop = [''ALL''],
                    SecurityOpt = [], RestartPolicy = ''unless-stopped'', DNS = [],
                    PortBindings = [(''8080/tcp'', [\<lparr>HostIP = ''127.0.0.1'', HostPort = ''8080''\<rparr>])]\<rparr>,
      Running = True, Networks = [(''toolhive-external'', ''172.18.0.2'')]\<rparr>"

definition stale_world :: world where
  "stale_world = fresh_world\<lparr>containers := [stale_container]\<rparr>"

section \<open>Properties of the egress proxy ACL document\<close>

lemma lines_of_nonempty [simp]: "lines_of s \<noteq> []"
  by (induction s) (auto split: list.splits)

lemma lines_of_single: "single_line p \<Longrightarrow> lines_of p = [p]"
  by (induction p) (auto simp: single_line_def)

lemma lines_of_break: "lines_of (xs @ CHR 0x0A # ys) = lines_of xs @ lines_of ys"
  by (induction xs) (auto split: list.splits)

lemma lines_of_prepend:
  "single_line p \<Longrightarrow> lines_of (p @ s) = (p @ hd (lines_of s)) # tl (lines_of s)"
  by (induction p) (auto simp: single_line_def lines_of_single split: list.splits)

lemma lines_of_chars: "l \<in> set (lines_of s) \<Longrightarrow> c \<in> set l \<Longrightarrow> c \<in> set s"
proof (induction s arbitrary: l)
  case Nil
  then show ?case by simp
next
  case (Cons a s)
  obtain x xs where x: "lines_of s = x # xs" by (cases "lines_of s") auto
  show ?case
  proof (cases "a = CHR 0x0A")
    case True
    with Cons.prems have "l \<in> set (lines_of s)" by auto
    with Cons show ?thesis by auto
  next
    case False
    with Cons.prems x have "l = a # x \<or> l \<in> set xs" by auto
    then show ?thesis
    proof
      assume "l = a # x"
      with Cons.prems(2) have "c = a \<or> c \<in> set x" by auto
      moreover have "x \<in> set (lines_of s)" using x by simp
      ultimately show ?thesis using Cons.IH by auto
    next
      assume "l \<in> set xs"
      then have "l \<in> set (lines_of s)" using x by simp
      then show ?thesis using Cons.IH Cons.prems(2) by auto
    qed
  qed
qed

declare lines_of.simps [simp del]

lemma unlines_Nil [simp]: "unlines [] = []"
  by (simp add: unlines_def)

lemma unlines_Cons [simp]: "unlines (p # ps) = p @ CHR 0x0A # unlines ps"
  by (simp add: unlines_def)

lemma unlines_append [simp]: "unlines (ps @ qs) = unlines ps @ unlines qs"
  by (simp add: unlines_def)

lemma lines_of_unlines: "lines_of (unlines ps) = concat (map lines_of ps) @ [[]]"
  by (induction ps) (simp_all add: lines_of_break lines_of.simps)

lemma count_unlines:
  "count_list (lines_of (unlines ps)) t = (\<Sum>p\<leftarrow>ps. count_list (lines_of p) t) + (if t = [] then 1 else 0)"
  by (induction ps) (simp_all add: lines_of_break lines_of.simps)

lemma count_single: "single_line p \<Longrightarrow> count_list (lines_of p) t = (if p = t then 1 else 0)"
  by (simp add: lines_of_single)

lemma count_literal: "single_line p \<Longrightarrow> p \<noteq> t \<Longrightarrow> count_list (lines_of p) t = 0"
  by (simp add: count_single)

lemma count_prepend:
  assumes "single_line p" and "\<And>x. p @ x \<noteq> t" and "c \<in> set t" and "c \<notin> set s"
  shows "count_list (lines_of (p @ s)) t = 0"
proof -
  have "l \<noteq> t" if "l \<in> set (tl (lines_of s))" for l
  proof
    assume eq: "l = t"
    from that have "l \<in> set (lines_of s)" by (meson list.set_sel(2) lines_of_nonempty)
    then have "c \<in> set s" using assms(3) eq by (auto dest: lines_of_chars)
    with assms(4) show False by simp
  qed
  then have "count_list (tl (lines_of s)) t = 0"
    by (auto simp: count_list_0_iff)
  with assms(2) show ?thesis
    unfolding lines_of_prepend [OF assms(1)] by simp
qed

lemma preamble_unlines: "squid_preamble h = unlines (preamble_lines h)"
  by (simp add: squid_preamble_def preamble_lines_def)

lemma ingress_unlines: "ingress_block h p = unlines (ingress_lines h p)"
  by (simp add: ingress_block_def ingress_lines_def Let_def)

lemma ingress_all_unlines:
  "concat (map (ingress_block h) ps) = unlines (concat (map (ingress_lines h) ps))"
  by (induction ps) (simp_all add: ingress_unlines)

lemma space_prefix: "(@) '' '' = (#) CHR '' ''"
  by (rule ext) simp

lemmas acl_defs = space_prefix writeRestrictedRules_def writeOutboundACLs_def writeHttpAccessRules_def
  acl_pieces_def ports_line_def hosts_line_def methods_line_def access_line_def

lemma acl_unlines:
  "writeRestrictedRules sb (Some ob) = Inr (sb @ unlines (acl_pieces ob))"
proof -
  have c: "conditions ob = [] \<longleftrightarrow> AllowPort ob = [] \<and> AllowHost ob = [] \<and> AllowTransport ob = []"
    by (simp add: conditions_def)
  show ?thesis
  proof (cases "AllowTransport ob = []")
    case True
    show ?thesis
    proof (cases "AllowPort ob = []")
      case p: True
      show ?thesis
        by (cases "AllowHost ob = []") (simp_all add: acl_defs c True p)
    next
      case p: False
      show ?thesis
        by (cases "AllowHost ob = []") (simp_all add: acl_defs c True p)
    qed
  next
    case False
    show ?thesis
    proof (cases "AllowPort ob = []")
      case p: True
      show ?thesis
        by (cases "AllowHost ob = []") (simp_all add: acl_defs c False p)
    next
      case p: False
      show ?thesis
        by (cases "AllowHost ob = []") (simp_all add: acl_defs c False p)
    qed
  qed
qed

lemma doc_unlines:
  "\<not> InsecureAllowAll ob \<Longrightarrow>
   squidConfText (Some \<lparr>Outbound = Some ob\<rparr>) h ps =
     Inr (unlines (preamble_lines h @ acl_pieces ob @ concat (map (ingress_lines h) ps)
                   @ [''http_access deny all'']))"
  by (simp add: squidConfText_def allow_all_traffic_def acl_unlines writeIngressProxyConfig_def
        preamble_unlines ingress_all_unlines Let_def)

lemma upper_char_not_a: "upper_char c \<noteq> CHR ''a''"
proof (cases "map_of (zip ''abcdefghijklmnopqrstuvwxyz'' ''ABCDEFGHIJKLMNOPQRSTUVWXYZ'') c")
  case None
  then have "c \<noteq> CHR ''a''" by auto
  with None show ?thesis by (simp add: upper_char_def)
next
  case (Some u)
  then have "u \<in> set ''ABCDEFGHIJKLMNOPQRSTUVWXYZ''"
    by (meson map_of_SomeD set_zip_rightD)
  then have "u \<noteq> CHR ''a''" by auto
  with Some show ?thesis by (simp add: upper_char_def)
qed

lemma ToUpper_no_a: "CHR ''a'' \<notin> set (ToUpper m)"
  by (induction m) (simp_all add: ToUpper_def upper_char_not_a [symmetric])

lemma methods_body_no_a:
  "CHR ''a'' \<notin> set (concat (map (\<lambda>method.
              (if ToUpper method = ''TCP'' then '' CONNECT GET POST HEAD'' else [])
              @ '' '' @ ToUpper method) ms))"
  by (induction ms) (simp_all add: ToUpper_no_a)

lemma count_methods_line: "count_list (lines_of (methods_line ms)) (dst_line H) = 0"
  unfolding methods_line_def dst_line_def
proof (rule count_prepend [where c = "CHR ''a''", OF _ _ _ methods_body_no_a])
  show "single_line ''acl allowed_methods method''" by (simp add: single_line_def)
  show "''acl allowed_methods method'' @ x \<noteq> ''acl allowed_dsts dstdomain '' @ H" for x by simp
  show "CHR ''a'' \<in> set (''acl allowed_dsts dstdomain '' @ H)" by simp
qed

lemma digit_chars: "d < 10 \<Longrightarrow> digit d \<in> set ''0123456789''"
  unfolding digit_def by (rule nth_mem) simp

lemma nat_digits_chars: "set (nat_digits n) \<subseteq> set ''0123456789''"
proof (induction n rule: nat_digits.induct)
  case (1 n)
  show ?case
  proof (cases "n < 10")
    case True
    then show ?thesis using digit_chars [of n] by (subst nat_digits.simps) simp
  next
    case False
    have "n mod 10 < 10" by simp
    then have "digit (n mod 10) \<in> set ''0123456789''" by (rule digit_chars)
    with False 1 show ?thesis by (subst nat_digits.simps) simp
  qed
qed

lemma Itoa_no_a: "CHR ''a'' \<notin> set (Itoa i)"
  using nat_digits_chars [of "nat i"] nat_digits_chars [of "nat (- i)"]
  by (auto simp: Itoa_def)

lemma ports_body_no_a: "CHR ''a'' \<notin> set (concat (map (\<lambda>port. '' '' @ Itoa port) ports))"
  by (induction ports) (simp_all add: Itoa_no_a)

lemma count_ports_line: "count_list (lines_of (ports_line ports)) (dst_line H) = 0"
  unfolding ports_line_def dst_line_def
proof (rule count_prepend [where c = "CHR ''a''", OF _ _ _ ports_body_no_a])
  show "single_line ''acl allowed_ports port''" by (simp add: single_line_def)
  show "''acl allowed_ports port'' @ x \<noteq> ''acl allowed_dsts dstdomain '' @ H" for x by simp
  show "CHR ''a'' \<in> set (''acl allowed_dsts dstdomain '' @ H)" by simp
qed

lemma count_access_line: "count_list (lines_of (access_line ob)) (dst_line H) = 0"
proof -
  have "single_line (Join (conditions ob) '' '')"
    by (simp add: conditions_def single_line_def)
  then have "single_line (access_line ob)"
    by (simp add: single_line_def access_line_def)
  then show ?thesis by (simp add: count_single access_line_def dst_line_def)
qed

lemma count_preamble:
  assumes "single_line h"
  shows "(\<Sum>p\<leftarrow>preamble_lines h. count_list (lines_of p) (dst_line H)) = 0"
proof -
  have "\<forall>q\<in>set (preamble_lines h). single_line q"
    using assms by (simp add: preamble_lines_def single_line_def)
  moreover have "\<forall>q\<in>set (preamble_lines h). q \<noteq> dst_line H"
    by (simp add: preamble_lines_def dst_line_def)
  ultimately have "\<forall>q\<in>set (preamble_lines h). count_list (lines_of q) (dst_line H) = 0"
    by (simp add: count_single)
  then show ?thesis by (simp add: sum_list_eq_0_iff)
qed

lemma count_ingress_one:
  assumes "single_line h" "single_line (before_slash p)"
  shows "(\<Sum>q\<leftarrow>ingress_lines h p. count_list (lines_of q) (dst_line H)) = 0"
proof -
  have "\<forall>q\<in>set (ingress_lines h p). single_line q"
    using assms by (simp add: ingress_lines_def single_line_def Let_def)
  moreover have "\<forall>q\<in>set (ingress_lines h p). q \<noteq> dst_line H"
    by (simp add: ingress_lines_def Let_def dst_line_def)
  ultimately have "\<forall>q\<in>set (ingress_lines h p). count_list (lines_of q) (dst_line H) = 0"
    by (simp add: count_single)
  then show ?thesis by (simp add: sum_list_eq_0_iff)
qed

lemma single_line_before_slash: "single_line p \<Longrightarrow> single_line (before_slash p)"
  unfolding single_line_def before_slash_def by (meson set_takeWhileD)

lemma count_ingress:
  assumes "single_line h" "\<forall>p\<in>set ps. single_line p"
  shows "(\<Sum>q\<leftarrow>concat (map (ingress_lines h) ps). count_list (lines_of q) (dst_line H)) = 0"
  using assms(2)
  by (induction ps) (simp_all add: count_ingress_one [OF assms(1)] single_line_before_slash)

lemma hosts_line_one: "hosts_line [H] = dst_line H"
  by (simp add: hosts_line_def dst_line_def)

lemma count_acl_pieces:
  assumes "AllowHost ob = [H]" "single_line H"
  shows "(\<Sum>q\<leftarrow>acl_pieces ob. count_list (lines_of q) (dst_line H)) = 1"
proof -
  have c: "conditions ob \<noteq> []" using assms(1) by (simp add: conditions_def)
  have t: "single_line (dst_line H)"
    using assms(2) by (simp add: single_line_def dst_line_def)
  have l: "count_list (lines_of p) (dst_line H) = 0" if "single_line p" "p \<noteq> dst_line H" for p
    using that by (rule count_literal)
  have lits: "count_list (lines_of ''# Define allowed ports'') (dst_line H) = 0"
    "count_list (lines_of ''# Define allowed destinations'') (dst_line H) = 0"
    "count_list (lines_of ''# Define allowed methods'') (dst_line H) = 0"
    "count_list (lines_of ''# Define http_access rules'') (dst_line H) = 0"
    "count_list (lines_of []) (dst_line H) = 0"
    by (rule l; simp add: single_line_def dst_line_def)+
  show ?thesis
    by (cases "AllowPort ob = []"; cases "AllowTransport ob = []")
       (simp_all add: acl_pieces_def assms(1) c count_ports_line count_methods_line count_access_line
          hosts_line_one count_single [OF t] lits)
qed


subsection \<open>The allow-all branch\<close>

lemma allow_all_doc:
  assumes "allow_all_traffic np"
  shows "squidConfText np h ps =
     Inr (unlines (preamble_lines h @ [''# Allow all traffic'', ''http_access allow all'']
                   @ concat (map (ingress_lines h) ps) @ [''http_access deny all'']))"
  using assms
  by (simp add: squidConfText_def writeIngressProxyConfig_def preamble_unlines
        ingress_all_unlines Let_def)

lemma egress_acl_allow_all:
  assumes "allow_all_traffic np"
  shows "\<exists>doc. squidConfText np h ps = Inr doc \<and> ''http_access allow all'' \<in> set (lines_of doc)"
proof -
  let ?X = "preamble_lines h @ [''# Allow all traffic'', ''http_access allow all'']
              @ concat (map (ingress_lines h) ps) @ [''http_access deny all'']"
  have d: "squidConfText np h ps = Inr (unlines ?X)"
    by (rule allow_all_doc [OF assms])
  have "single_line ''http_access allow all''"
    by (simp add: single_line_def)
  then have "lines_of ''http_access allow all'' = [''http_access allow all'']"
    by (rule lines_of_single)
  then have "''http_access allow all'' \<in> set (lines_of (unlines ?X))"
    unfolding lines_of_unlines by simp
  with d show ?thesis by blast
qed

lemma createTempSquidConf_allow_all:
  assumes "allow_all_traffic np" and "\<not> create_fails fs" and "\<not> write_fails fs"
  shows "\<exists>path doc. createTempSquidConf fs np h ps
            = (Inr path, fs\<lparr>files := (path, doc) # files fs, tmp_serial := Suc (tmp_serial fs)\<rparr>)
          \<and> ''http_access allow all'' \<in> set (lines_of doc)"
proof -
  obtain doc where "squidConfText np h ps = Inr doc"
    and "''http_access allow all'' \<in> set (lines_of doc)"
    using egress_acl_allow_all [OF assms(1)] by blast
  then show ?thesis
    using assms(2,3) by (auto simp: createTempSquidConf_def Let_def)
qed

text \<open>
  Claim C2.  A profile with \<open>insecure_allow_all\<close> set, or with no outbound permissions,
  is to yield a document with the line \<open>http_access allow all\<close>, without error.  The two
  lemmas above show this when the profile has no network section at all and when
  \<open>insecure_allow_all\<close> is set.  A profile whose network section is present but whose
  \<open>outbound\<close> is absent fails the first test of \<open>createTempSquidConf\<close> and reaches
  \<open>writeOutboundACLs\<close> with a nil pointer: no document is produced, the call panics.
\<close>

theorem createTempSquidConf_nil_outbound:
  "createTempSquidConf fs (Some \<lparr>Outbound = None\<rparr>) h ps = (Inl NilPointerPanic, fs)"
  by (simp add: createTempSquidConf_def squidConfText_def allow_all_traffic_def
        writeRestrictedRules_def writeOutboundACLs_def)

subsection \<open>The restricted branch\<close>

text \<open>
  Claim C3.  The entry \<open>TCP\<close> of \<open>allow_transport\<close> is to expand to the four methods
  \<open>CONNECT GET POST HEAD\<close> and to nothing else.  The loop of \<open>writeOutboundACLs\<close> writes the
  expansion and then, with no \<open>else\<close>, the upper-cased entry itself: the access list ends
  in \<open>HEAD TCP\<close>.  The \<open>http_access allow\<close> line names the non-empty lists, as claimed.
\<close>

theorem egress_acl_tcp_entry:
  "squidConfText
     (Some \<lparr>Outbound = Some \<lparr>InsecureAllowAll = False, AllowTransport = [''TCP''],
                                AllowHost = [], AllowPort = []\<rparr>\<rparr>) h []
   = Inr (squid_preamble h
          @ ''# Define allowed methods\<newline>''
          @ ''acl allowed_methods method CONNECT GET POST HEAD TCP\<newline>''
          @ ''# Define http_access rules\<newline>''
          @ ''http_access allow allowed_methods\<newline>''
          @ ''http_access deny all\<newline>'')"
  by (simp add: squidConfText_def allow_all_traffic_def writeRestrictedRules_def
        writeOutboundACLs_def writeHttpAccessRules_def conditions_def
        writeIngressProxyConfig_def ToUpper_def upper_char_def Let_def)

text \<open>
  Claim C4.  With \<open>insecure_allow_all = false\<close> and \<open>allow_host = [H]\<close>, where the host
  \<open>H\<close>, the workload's host name and the exposed port keys hold no line feed, the
  document has exactly one line \<open>acl allowed_dsts dstdomain H\<close>, and its last
  \<open>http_access\<close> line is \<open>http_access deny all\<close>.  The allowed ports and methods are
  arbitrary.
\<close>

theorem egress_acl_single_host:
  assumes "\<not> InsecureAllowAll ob" and "AllowHost ob = [H]"
    and "single_line H" and "single_line h" and "\<forall>p\<in>set ps. single_line p"
  shows "\<exists>doc. squidConfText (Some \<lparr>Outbound = Some ob\<rparr>) h ps = Inr doc
           \<and> count_list (lines_of doc) (''acl allowed_dsts dstdomain '' @ H) = 1
           \<and> last (filter (prefix ''http_access'') (lines_of doc)) = ''http_access deny all''"
proof -
  let ?X = "preamble_lines h @ acl_pieces ob @ concat (map (ingress_lines h) ps)"
  let ?doc = "unlines (?X @ [''http_access deny all''])"
  have d: "squidConfText (Some \<lparr>Outbound = Some ob\<rparr>) h ps = Inr ?doc"
    using doc_unlines [OF assms(1)] by simp
  have deny: "count_list (lines_of ''http_access deny all'') (dst_line H) = 0"
    by (rule count_literal) (simp_all add: single_line_def dst_line_def)
  have ne: "dst_line H \<noteq> []" by (simp add: dst_line_def)
  have "count_list (lines_of ?doc) (dst_line H) = 1"
    unfolding count_unlines
    by (simp add: count_preamble [OF assms(4)] count_acl_pieces [OF assms(2,3)]
          count_ingress [OF assms(4,5)] deny ne)
  moreover have sl: "single_line ''http_access deny all''" by (simp add: single_line_def)
  have "lines_of ?doc = concat (map lines_of ?X) @ [''http_access deny all'', []]"
    unfolding lines_of_unlines by (simp add: lines_of_single [OF sl])
  then have "last (filter (prefix ''http_access'') (lines_of ?doc)) = ''http_access deny all''"
    by simp
  ultimately show ?thesis using d unfolding dst_line_def by simp
qed


theorem egress_acl_single_host_witness:
  "\<exists>doc. squidConfText
            (Some \<lparr>Outbound = Some \<lparr>InsecureAllowAll = False, AllowTransport = [''tcp''],
                                       AllowHost = [''api.example.com''], AllowPort = [443]\<rparr>\<rparr>)
            ''fetch'' [''8080/tcp''] = Inr doc
         \<and> count_list (lines_of doc) ''acl allowed_dsts dstdomain api.example.com'' = 1
         \<and> last (filter (prefix ''http_access'') (lines_of doc)) = ''http_access deny all''"
  using egress_acl_single_host
    [of "\<lparr>InsecureAllowAll = False, AllowTransport = [''tcp''],
          AllowHost = [''api.example.com''], AllowPort = [443]\<rparr>"
        "''api.example.com''" "''fetch''" "[''8080/tcp'']"]
  by (simp add: single_line_def)

text \<open>
  The three names are written into the document as they are.  A line feed in the host
  ends the access list and starts a line of its own, here a rule that allows everything;
  a line feed in the workload's host name or in a port key can add a second line
  \<open>acl allowed_dsts dstdomain H\<close>.
\<close>

theorem egress_acl_line_feed:
  "(case squidConfText (Some \<lparr>Outbound = Some (single_host ''a.com\<newline>http_access allow all'')\<rparr>)
           ''fetch'' [] of
      Inl e \<Rightarrow> False
    | Inr doc \<Rightarrow>
        count_list (lines_of doc) (''acl allowed_dsts dstdomain '' @ ''a.com\<newline>http_access allow all'') = 0
        \<and> filter (prefix ''http_access'') (lines_of doc)
            = [''http_access allow all'', ''http_access allow allowed_dsts'', ''http_access deny all''])
   \<and> (case squidConfText (Some \<lparr>Outbound = Some (single_host ''a.com'')\<rparr>)
              ''x\<newline>acl allowed_dsts dstdomain a.com\<newline>y'' [] of
         Inl e \<Rightarrow> False
       | Inr doc \<Rightarrow> count_list (lines_of doc) (''acl allowed_dsts dstdomain '' @ ''a.com'') = 2)
   \<and> (case squidConfText (Some \<lparr>Outbound = Some (single_host ''a.com'')\<rparr>)
              ''fetch'' [''80\<newline>acl allowed_dsts dstdomain a.com\<newline>''] of
         Inl e \<Rightarrow> False
       | Inr doc \<Rightarrow> count_list (lines_of doc) (''acl allowed_dsts dstdomain '' @ ''a.com'') = 7)"
  by code_simp

text \<open>The document is what \<open>createTempSquidConf\<close> writes to the file it creates.\<close>

lemma createTempSquidConf_document:
  assumes "squidConfText np h ps = Inr doc" and "\<not> create_fails fs" and "\<not> write_fails fs"
  shows "createTempSquidConf fs np h ps
           = (Inr (''/tmp/squid-'' @ Itoa (int (tmp_serial fs)) @ ''.conf''),
              fs\<lparr>files := (''/tmp/squid-'' @ Itoa (int (tmp_serial fs)) @ ''.conf'', doc) # files fs,
                 tmp_serial := Suc (tmp_serial fs)\<rparr>)"
  using assms by (simp add: createTempSquidConf_def Let_def)

section \<open>Properties of the proxy\<close>

subsection \<open>Pending messages\<close>

















subsection \<open>POST /messages\<close>

text \<open>
  Claim C10.  A POST whose \<open>session_id\<close> parameter is absent or empty is answered with
  400 and the text \<open>session_id is required\<close>, whatever the clients, the body and the
  decoder are: the test precedes the session lookup, the body read and the decoding.
\<close>

theorem post_without_session_id:
  assumes "Method r = ''POST''" and "session_id r = []"
  shows "handlePostRequest dec p r = (\<lparr>Status = 400, Text = ''session_id is required\<newline>''\<rparr>, p)"
  using assms by (simp add: handlePostRequest_def http_Error_def)

theorem post_without_session_id_witness:
  "handlePostRequest text_dec (handleSSEConnection NewHTTPSSEProxy ''c1'')
      \<lparr>Method = ''POST'', session_id = [], Body = Inr ''{a}''\<rparr>
   = (\<lparr>Status = 400, Text = ''session_id is required\<newline>''\<rparr>, handleSSEConnection NewHTTPSSEProxy ''c1'')"
  using post_without_session_id [of "\<lparr>Method = ''POST'', session_id = [], Body = Inr ''{a}''\<rparr>"
     text_dec "handleSSEConnection NewHTTPSSEProxy ''c1''"]
  by simp

text \<open>
  Claim C9.  A POST whose non-empty \<open>session_id\<close> names no client is answered with 404
  and leaves the proxy as it was: nothing reaches the channel to the container.
\<close>

theorem post_unknown_session:
  assumes "Method r = ''POST''" and "session_id r \<noteq> []"
    and "map_of (sseClients p) (session_id r) = None"
  shows "handlePostRequest dec p r = (\<lparr>Status = 404, Text = ''Could not find session\<newline>''\<rparr>, p)"
  using assms by (simp add: handlePostRequest_def http_Error_def)

theorem post_unknown_session_witness:
  "handlePostRequest text_dec (handleSSEConnection NewHTTPSSEProxy ''c1'')
      \<lparr>Method = ''POST'', session_id = ''bogus'', Body = Inr ''{a}''\<rparr>
   = (\<lparr>Status = 404, Text = ''Could not find session\<newline>''\<rparr>, handleSSEConnection NewHTTPSSEProxy ''c1'')"
  using post_unknown_session [of "\<lparr>Method = ''POST'', session_id = ''bogus'', Body = Inr ''{a}''\<rparr>"
     "handleSSEConnection NewHTTPSSEProxy ''c1''" text_dec]
  by (simp add: handleSSEConnection_def processPendingMessages_def NewHTTPSSEProxy_def map_store_def
        make_chan_def)

lemma post_unknown_session_enqueues_nothing:
  "map_of (sseClients p) (session_id r) = None \<Longrightarrow> snd (handlePostRequest dec p r) = p"
  by (simp add: handlePostRequest_def)

text \<open>
  The empty \<open>session_id\<close> names no client either, and is answered with 400, not 404.
\<close>

theorem post_empty_session_not_404:
  "map_of (sseClients (NewHTTPSSEProxy :: string HTTPSSEProxy)) [] = None
   \<and> Status (fst (handlePostRequest text_dec NewHTTPSSEProxy
         \<lparr>Method = ''POST'', session_id = [], Body = Inr ''{a}''\<rparr>)) = 400"
  by (simp add: handlePostRequest_def http_Error_def NewHTTPSSEProxy_def)

section \<open>Properties of the stdio transport\<close>

subsection \<open>Dirty lines\<close>


lemma Index_nonneg_or_absent: "Index xs c = - 1 \<or> 0 \<le> Index xs c"
  by (induction xs) (auto simp: Let_def)









lemma clean_line_unchanged:
  "\<not> hasBinaryData tbl line \<Longrightarrow> jsonData tbl line = line"
  by (simp add: jsonData_def)



subsection \<open>Stopping\<close>


lemma closed_stop_monitor [simp]: "shutdownCh_closed (stop_monitor t) = shutdownCh_closed t"
  by (simp add: stop_monitor_def)

lemma closed_stop_proxy [simp]: "shutdownCh_closed (stop_proxy t) = shutdownCh_closed t"
  by (simp add: stop_proxy_def)

lemma closed_close_stdin [simp]: "shutdownCh_closed (close_stdin t) = shutdownCh_closed t"
  by (simp add: close_stdin_def)

lemma closed_stop_container [simp]: "shutdownCh_closed (stop_container running t) = shutdownCh_closed t"
  by (cases running) (simp_all add: stop_container_def)

lemma Stop_after_shutdown: "shutdownCh_closed t \<Longrightarrow> Stop running t = (None, t)"
  by (simp add: Stop_def)

lemma Stop_closes: "shutdownCh_closed (snd (Stop running t))"
  by (cases "shutdownCh_closed t") (simp_all add: Stop_def Let_def)

lemma Stop_returns_nil: "fst (Stop running t) = None"
  by (cases "shutdownCh_closed t") (simp_all add: Stop_def Let_def)

theorem Stop_idempotent:
  "Stop running' (snd (Stop running t)) = (None, snd (Stop running t))"
  by (rule Stop_after_shutdown) (rule Stop_closes)

text \<open>
  Claim C8.  A call to \<open>Stop\<close> on a transport whose shutdown channel is closed returns
  \<open>nil\<close> and changes nothing: no teardown action is added.  The first call closes the
  channel, so a second call is such a call.
\<close>

theorem Stop_signalled:
  assumes "shutdownCh_closed t"
  shows "Stop running t = (None, t) \<and> teardown (snd (Stop running t)) = teardown t"
  using assms by (simp add: Stop_def)

theorem Stop_signalled_witness:
  "shutdownCh_closed (snd (Stop (Inr True) running_transport))
   \<and> Stop (Inr True) (snd (Stop (Inr True) running_transport))
       = (None, snd (Stop (Inr True) running_transport))
   \<and> teardown (snd (Stop (Inr True) (snd (Stop (Inr True) running_transport))))
       = [MonitorStopped, ProxyStopped, StdinClosed, ContainerStopped ''c0ffee'']"
  using Stop_signalled [of "snd (Stop (Inr True) running_transport)" "Inr True"]
  by (simp add: running_transport_def Stop_def Let_def stop_monitor_def stop_proxy_def
        close_stdin_def stop_container_def)

text \<open>
  The earlier revision has no such test: its second call closes the closed channel.
\<close>

lemma Stop_earlier_closes: "shutdownCh_closed (snd (Stop_earlier reply t))"
  by (cases "shutdownCh_closed t"; cases reply)
     (simp_all add: Stop_earlier_def Let_def)

lemma Stop_earlier_twice_panics:
  "fst (Stop_earlier reply' (snd (Stop_earlier reply t))) = Some ClosedChannelPanic"
  using Stop_earlier_closes [of reply t] by (simp add: Stop_earlier_def)

section \<open>Properties of the runtime adapter\<close>

subsection \<open>What an operation does to the containers of the engine\<close>

lemma keeps_refl [simp]: "keeps Q w w"
  by (simp add: keeps_def)

lemma keeps_trans: "keeps Q w w1 \<Longrightarrow> keeps Q w1 w2 \<Longrightarrow> keeps Q w w2"
  by (simp add: keeps_def)

lemma keeps_same: "containers w' = containers w \<Longrightarrow> keeps Q w w'"
  by (simp add: keeps_def)

lemma keeps_tmp [simp]: "keeps Q w (w'\<lparr>tmp := fs\<rparr>) = keeps Q w w'"
  "keeps Q (w\<lparr>tmp := fs\<rparr>) w' = keeps Q w w'"
  by (simp_all add: keeps_def)

lemma stable_set_running:
  "stable Q \<Longrightarrow> list_all Q cs \<Longrightarrow> list_all Q (set_running cid b cs)"
  by (induction cs) (simp_all add: stable_def set_running_def)

lemma keeps_ContainerList: "keeps Q w (snd (engine_ContainerList w n))"
  by (simp add: engine_ContainerList_def keeps_def issue_def)

lemma keeps_ContainerListLabel: "keeps Q w (snd (engine_ContainerListLabel w n))"
  by (simp add: engine_ContainerListLabel_def keeps_def issue_def)

lemma keeps_ContainerInspect: "keeps Q w (snd (engine_ContainerInspect w n))"
  by (simp add: engine_ContainerInspect_def keeps_def issue_def split: option.splits)

lemma keeps_ContainerStart: "stable Q \<Longrightarrow> keeps Q w (snd (engine_ContainerStart w n))"
  by (simp add: engine_ContainerStart_def keeps_def issue_def stable_set_running split: option.splits)

lemma keeps_ContainerStop: "stable Q \<Longrightarrow> keeps Q w (snd (engine_ContainerStop w n))"
  by (simp add: engine_ContainerStop_def keeps_def issue_def stable_set_running split: option.splits)

lemma keeps_ContainerRemove: "keeps Q w (snd (engine_ContainerRemove w n))"
  by (simp add: engine_ContainerRemove_def keeps_def issue_def list_all_iff split: option.splits)

lemma keeps_ContainerCreate:
  assumes "\<And>cid ip. Q \<lparr>ID = cid, Name = ''/'' @ n, Config = cfg, HostConfig = h, Running = False,
                         Networks = map (\<lambda>e. (e, ip)) eps\<rparr>"
  shows "keeps Q w (snd (engine_ContainerCreate w n cfg h eps))"
  using assms by (simp add: engine_ContainerCreate_def Let_def keeps_def issue_def)

lemma keeps_NetworkList: "keeps Q w (snd (engine_NetworkList w n))"
  by (simp add: engine_NetworkList_def keeps_def issue_def)

lemma keeps_NetworkCreate: "keeps Q w (snd (engine_NetworkCreate w n b l))"
  by (simp add: engine_NetworkCreate_def keeps_def issue_def)

lemma keeps_NetworkRemove: "keeps Q w (snd (engine_NetworkRemove w n))"
  by (simp add: engine_NetworkRemove_def keeps_def issue_def)

lemma keeps_ImagePull: "keeps Q w (snd (engine_ImagePull w n))"
  by (simp add: engine_ImagePull_def keeps_def issue_def)

lemma stepI: "f = (r, w') \<Longrightarrow> keeps Q w (snd f) \<Longrightarrow> keeps Q w w'"
  by auto

lemmas steps =
  stepI [OF _ keeps_ContainerList] stepI [OF _ keeps_ContainerListLabel]
  stepI [OF _ keeps_ContainerInspect] stepI [OF _ keeps_ContainerRemove]
  stepI [OF _ keeps_NetworkList] stepI [OF _ keeps_NetworkCreate]
  stepI [OF _ keeps_NetworkRemove] stepI [OF _ keeps_ImagePull]

lemmas run_steps = stepI [OF _ keeps_ContainerStart] stepI [OF _ keeps_ContainerStop]

lemma keeps_findExistingContainer: "keeps Q w (snd (findExistingContainer w name))"
  by (auto simp: findExistingContainer_def split: prod.splits sum.splits option.splits
        dest!: steps [where Q = Q])

lemma keeps_IsWorkloadRunning: "keeps Q w (snd (IsWorkloadRunning w cid))"
  by (auto simp: IsWorkloadRunning_def split: prod.splits sum.splits go_error.splits
        dest!: steps [where Q = Q])

lemmas finds = stepI [OF _ keeps_findExistingContainer] stepI [OF _ keeps_IsWorkloadRunning]

lemma keeps_stop_by_name:
  assumes "stable Q"
  shows "keeps Q w (stop_by_name w name)"
proof -
  have a: "\<And>w cid. keeps Q w (snd (engine_ContainerStop w cid))"
    by (rule keeps_ContainerStop [OF assms])
  show ?thesis
    unfolding stop_by_name_def
    by (auto split: prod.splits sum.splits dest!: finds [where Q = Q]; meson keeps_trans a)
qed

lemma keeps_StopWorkload:
  assumes "stable Q"
  shows "keeps Q w (snd (StopWorkload w cid))"
proof -
  note r = run_steps [where Q = Q, OF _ assms]
  have b: "\<And>w n. keeps Q w (stop_by_name w n)"
    by (rule keeps_stop_by_name [OF assms])
  show ?thesis
    unfolding StopWorkload_def Let_def
    by (auto split: prod.splits sum.splits go_error.splits
          dest!: finds [where Q = Q] steps [where Q = Q] r; meson keeps_trans b)
qed

lemma keeps_remove_by_name: "keeps Q w (snd (remove_by_name w name what))"
  unfolding remove_by_name_def
  by (auto split: prod.splits sum.splits go_error.splits
        dest!: finds [where Q = Q] steps [where Q = Q]; meson keeps_trans)

lemma keeps_deleteNetwork: "keeps Q w (snd (deleteNetwork w name))"
  unfolding deleteNetwork_def
  by (auto split: prod.splits sum.splits list.splits
        dest!: steps [where Q = Q]; meson keeps_trans)

lemma keeps_remove_networks: "keeps Q w (snd (remove_networks w containerName))"
proof -
  have a: "\<And>w n. keeps Q w (snd (deleteNetwork w n))" by (rule keeps_deleteNetwork)
  show ?thesis
    unfolding remove_networks_def Let_def
    by (auto split: prod.splits sum.splits dest!: steps [where Q = Q]; meson keeps_trans a)
qed

lemma keeps_RemoveWorkload: "keeps Q w (snd (RemoveWorkload w cid))"
proof -
  have a: "\<And>w n x r w'. remove_by_name w n x = (r, w') \<Longrightarrow> keeps Q w w'"
    using keeps_remove_by_name by (metis snd_conv)
  have b: "\<And>w n. keeps Q w (snd (remove_networks w n))" by (rule keeps_remove_networks)
  show ?thesis
    unfolding RemoveWorkload_def Let_def
    by (auto split: prod.splits sum.splits go_error.splits flow.splits
          dest!: steps [where Q = Q] a; meson keeps_trans b)
qed

lemma keeps_handleExistingContainer:
  assumes "stable Q"
  shows "keeps Q w (snd (handleExistingContainer w cid cfg h))"
proof -
  note r = run_steps [where Q = Q, OF _ assms]
  have c: "\<And>w r w'. StopWorkload w cid = (r, w') \<Longrightarrow> keeps Q w w'"
    using keeps_StopWorkload [OF assms] by (metis snd_conv)
  have d: "\<And>w r w'. RemoveWorkload w cid = (r, w') \<Longrightarrow> keeps Q w w'"
    using keeps_RemoveWorkload by (metis snd_conv)
  show ?thesis
    unfolding handleExistingContainer_def
    by (auto split: prod.splits sum.splits option.splits
          dest!: steps [where Q = Q] r c d; meson keeps_trans)
qed

lemma keeps_create_and_start:
  assumes "stable Q" and "fresh_ok Q n eps"
  shows "keeps Q w (snd (create_and_start w n cfg h eps))"
proof -
  note r = run_steps [where Q = Q, OF _ assms(1)]
  have a: "\<And>w r w'. engine_ContainerCreate w n cfg h eps = (r, w') \<Longrightarrow> keeps Q w w'"
    by (erule stepI) (rule keeps_ContainerCreate, use assms(2) in \<open>simp add: fresh_ok_def\<close>)
  show ?thesis
    unfolding create_and_start_def
    by (auto split: prod.splits sum.splits dest!: a r; meson keeps_trans)
qed

lemma keeps_createContainer:
  assumes "stable Q" and "fresh_ok Q n eps"
  shows "keeps Q w (snd (createContainer w n cfg h eps))"
proof -
  have b: "\<And>w cid r w'. handleExistingContainer w cid cfg h = (r, w') \<Longrightarrow> keeps Q w w'"
    using keeps_handleExistingContainer [OF assms(1)] by (metis snd_conv)
  have c: "\<And>w. keeps Q w (snd (create_and_start w n cfg h eps))"
    by (rule keeps_create_and_start [OF assms])
  show ?thesis
    unfolding createContainer_def
    by (auto split: prod.splits sum.splits dest!: finds [where Q = Q] b; meson keeps_trans c)
qed

lemma keeps_createNetwork: "keeps Q w (snd (createNetwork w name labels internal))"
  unfolding createNetwork_def
  by (auto split: prod.splits sum.splits dest!: steps [where Q = Q]; meson keeps_trans)

lemma keeps_createContainerNetworks: "keeps Q w (snd (createContainerNetworks w i e))"
proof -
  have a: "\<And>w n ls b r w'. createNetwork w n ls b = (r, w') \<Longrightarrow> keeps Q w w'"
    using keeps_createNetwork by (metis snd_conv)
  show ?thesis
    unfolding createContainerNetworks_def
    by (auto split: prod.splits option.splits dest!: a; meson keeps_trans)
qed

lemma keeps_PullImage: "keeps Q w (snd (PullImage w i))"
  unfolding PullImage_def
  by (auto split: prod.splits sum.splits dest!: steps [where Q = Q])

lemma keeps_createEgressContainers:
  assumes "stable Q"
    and "\<And>eps. fresh_ok Q en eps"
    and "\<And>eps. fresh_ok Q dn eps"
  shows "keeps Q w (snd (createEgressContainers w n en dn att perm pb ep))"
proof -
  have a: "\<And>w i r w'. PullImage w i = (r, w') \<Longrightarrow> keeps Q w w'"
    using keeps_PullImage by (metis snd_conv)
  have b: "\<And>w cfg h eps r w'. createContainer w en cfg h eps = (r, w') \<Longrightarrow> keeps Q w w'"
    using keeps_createContainer [OF assms(1) assms(2)] by (metis snd_conv)
  have c: "\<And>w cfg h eps r w'. createContainer w dn cfg h eps = (r, w') \<Longrightarrow> keeps Q w w'"
    using keeps_createContainer [OF assms(1) assms(3)] by (metis snd_conv)
  show ?thesis
    unfolding createEgressContainers_def Let_def
    by (auto split: prod.splits sum.splits option.splits
          dest!: a b c steps [where Q = Q]; meson keeps_trans)
qed

subsection \<open>The container a successful creation returns\<close>

lemma set_running_has:
  "\<exists>c\<in>set cs. ID c = i \<and> named n c \<Longrightarrow> \<exists>c\<in>set (set_running j b cs). ID c = i \<and> named n c"
  by (induction cs) (auto simp: set_running_def named_def)

lemma find_named:
  assumes "findExistingContainer w n = (Inr cid, w1)" and "cid \<noteq> []"
  shows "\<exists>c\<in>set (containers w1). ID c = cid \<and> named n c"
proof -
  from assms obtain cont where f: "find (\<lambda>cont. Name cont = ''/'' @ n \<or> Name cont = n) (containers w) = Some cont"
    and i: "ID cont = cid" and w: "containers w1 = containers w"
    by (auto simp: findExistingContainer_def engine_ContainerList_def issue_def
          split: if_splits option.splits)
  from f have "cont \<in> set (containers w)" "named n cont"
    by (auto simp: find_Some_iff named_def)
  with i w show ?thesis by auto
qed

lemma reuse_has:
  assumes "handleExistingContainer w cid cfg h = (Inr True, w')"
    and "\<exists>c\<in>set (containers w). ID c = cid \<and> named n c"
  shows "\<exists>c\<in>set (containers w'). ID c = cid \<and> named n c"
proof -
  from assms(1) have "containers w' = containers w \<or> containers w' = set_running cid True (containers w)"
    by (auto simp: handleExistingContainer_def engine_ContainerInspect_def engine_ContainerStart_def
          issue_def split: if_splits option.splits prod.splits sum.splits)
  with assms(2) show ?thesis using set_running_has by metis
qed

lemma create_and_start_has:
  assumes "create_and_start w n cfg h eps = (Inr cid, w')"
  shows "\<exists>c\<in>set (containers w'). ID c = cid \<and> named n c"
proof -
  from assms obtain w1 where c: "engine_ContainerCreate w n cfg h eps = (Inr cid, w1)"
    and s: "\<exists>u. engine_ContainerStart w1 cid = (Inr u, w')"
    by (auto simp: create_and_start_def split: prod.splits sum.splits)
  from c have 1: "\<exists>c\<in>set (containers w1). ID c = cid \<and> named n c"
    by (auto simp: engine_ContainerCreate_def Let_def issue_def named_def split: if_splits)
  from s have "containers w' = set_running cid True (containers w1)"
    by (auto simp: engine_ContainerStart_def issue_def split: if_splits option.splits)
  with 1 show ?thesis using set_running_has by metis
qed

lemma createContainer_has:
  assumes "createContainer w n cfg h eps = (Inr cid, w')"
  shows "\<exists>c\<in>set (containers w'). ID c = cid \<and> named n c"
proof -
  obtain r w1 where f: "findExistingContainer w n = (r, w1)" by fastforce
  show ?thesis
  proof (cases r)
    case (Inl e)
    with assms f show ?thesis by (simp add: createContainer_def)
  next
    case (Inr existingID)
    show ?thesis
    proof (cases "existingID = []")
      case True
      with assms f Inr have "create_and_start w1 n cfg h eps = (Inr cid, w')"
        by (simp add: createContainer_def)
      then show ?thesis by (rule create_and_start_has)
    next
      case False
      obtain r2 w2 where hd: "handleExistingContainer w1 existingID cfg h = (r2, w2)" by fastforce
      show ?thesis
      proof (cases r2)
        case (Inl e)
        with assms f Inr False hd show ?thesis by (simp add: createContainer_def)
      next
        case can: (Inr canReuse)
        show ?thesis
        proof (cases canReuse)
          case True
          with assms f Inr False hd can have eq: "cid = existingID" "w' = w2"
            by (simp_all add: createContainer_def)
          have "\<exists>c\<in>set (containers w1). ID c = existingID \<and> named n c"
            using f Inr False by (auto intro: find_named)
          with hd can True have "\<exists>c\<in>set (containers w2). ID c = existingID \<and> named n c"
            by (auto intro: reuse_has)
          with eq show ?thesis by simp
        next
          case no: False
          with assms f Inr False hd can have "create_and_start w2 n cfg h eps = (Inr cid, w')"
            by (simp add: createContainer_def)
          then show ?thesis by (rule create_and_start_has)
        qed
      qed
    qed
  qed
qed

lemma deploy_main_creates:
  assumes "deploy_main w img name cmd env labels pc att dns opts = (Inr cid, w')"
  shows "\<exists>cfg h. createContainer w name cfg h
            (if name = ''inspector'' then [''toolhive-'' @ name @ ''-internal'', ''toolhive-external'']
             else [''toolhive-'' @ name @ ''-internal'']) = (Inr cid, w')"
  using assms unfolding deploy_main_def Let_def
  by (auto split: option.splits sum.splits prod.splits if_splits)

lemma DeployWorkload_main:
  assumes st: "stable Q"
    and eg: "\<And>eps. fresh_ok Q (name @ ''-egress'') eps"
    and dn: "\<And>eps. fresh_ok Q (name @ ''-dns'') eps"
    and res: "DeployWorkload w img name cmd env labels prof tt opts = (Inr cid, w')"
  shows "\<exists>w2 env' pc att dns.
           keeps Q w w2 \<and> deploy_main w2 img name cmd env' labels pc att dns opts = (Inr cid, w')"
proof (cases "getPermissionConfigFromProfile w prof tt")
  case (Inl e)
  with res show ?thesis by (simp add: DeployWorkload_def)
next
  case (Inr pc)
  obtain r1 w1 where n: "createContainerNetworks w (''toolhive-'' @ name @ ''-internal'') ''toolhive-external'' = (r1, w1)"
    by fastforce
  have 1: "keeps Q w w1"
    using keeps_createContainerNetworks [of Q w] n by (metis snd_conv)
  show ?thesis
  proof (cases r1)
    case (Some e)
    with Inr n res show ?thesis by (simp add: DeployWorkload_def)
  next
    case None
    show ?thesis
    proof (cases "name = ''inspector''")
      case True
      with Inr n None res have "deploy_main w1 img name cmd env labels pc
               (case opts of None \<Rightarrow> True | Some x \<Rightarrow> opt_AttachStdio x) [] opts = (Inr cid, w')"
        by (simp add: DeployWorkload_def)
      with 1 show ?thesis by blast
    next
      case False
      show ?thesis
      proof (cases prof)
        case pn: None
        with Inr n None False res show ?thesis by (simp add: DeployWorkload_def)
      next
        case ps: (Some pr)
        show ?thesis
        proof (cases opts)
          case on: None
          with Inr n None False ps res show ?thesis by (simp add: DeployWorkload_def)
        next
          case os: (Some ops)
          obtain r2 w2 where c: "createEgressContainers w1 name (name @ ''-egress'') (name @ ''-dns'')
                (opt_AttachStdio ops) (Network pr) (opt_PortBindings ops) (opt_ExposedPorts ops) = (r2, w2)"
            by fastforce
          have "keeps Q w1 w2"
            using keeps_createEgressContainers [OF st eg dn, of w1] c by (metis snd_conv)
          with 1 have 2: "keeps Q w w2" by (rule keeps_trans)
          show ?thesis
          proof (cases r2)
            case (Inl e)
            with Inr n None False ps os c res show ?thesis by (simp add: DeployWorkload_def)
          next
            case ids: (Inr t)
            obtain a b d where t: "t = (a, b, d)" by (cases t)
            from Inr n None False ps os c ids t res
            have "deploy_main w2 img name cmd
                     (Some (proxy_env (''http://'' @ name @ ''-egress'' @ '':3128'')
                              (case env of None \<Rightarrow> [] | Some m \<Rightarrow> m)))
                     labels pc (opt_AttachStdio ops) d opts = (Inr cid, w')"
              by (simp add: DeployWorkload_def)
            with 2 show ?thesis by blast
          qed
        qed
      qed
    qed
  qed
qed

lemma stable_attached: "stable (\<lambda>c. named name c \<longrightarrow> attached c = E)"
  by (simp add: stable_def named_def attached_def)

lemma fresh_side:
  "fresh_ok (\<lambda>c. named name c \<longrightarrow> attached c = E) (name @ ''-egress'') eps"
  "fresh_ok (\<lambda>c. named name c \<longrightarrow> attached c = E) (name @ ''-dns'') eps"
  by (auto simp: fresh_ok_def named_def)

lemma fresh_main: "fresh_ok (\<lambda>c. named name c \<longrightarrow> attached c = E) name E"
  by (simp add: fresh_ok_def named_def attached_def comp_def)

lemma deployed_networks:
  assumes old: "\<forall>c\<in>set (containers w). named name c \<longrightarrow> attached c = E"
    and E: "E = (if name = ''inspector'' then [''toolhive-'' @ name @ ''-internal'', ''toolhive-external'']
                 else [''toolhive-'' @ name @ ''-internal''])"
    and res: "DeployWorkload w img name cmd env labels prof tt opts = (Inr cid, w')"
  shows "(\<exists>c\<in>set (containers w'). ID c = cid \<and> named name c)
       \<and> (\<forall>c\<in>set (containers w'). named name c \<longrightarrow> attached c = E)"
proof -
  let ?Q = "\<lambda>c. named name c \<longrightarrow> attached c = E"
  obtain w2 env' pc att dns where k: "keeps ?Q w w2"
    and m: "deploy_main w2 img name cmd env' labels pc att dns opts = (Inr cid, w')"
    using DeployWorkload_main [OF stable_attached fresh_side res] by blast
  obtain cfg h where c: "createContainer w2 name cfg h E = (Inr cid, w')"
    using deploy_main_creates [OF m] E by auto
  have "keeps ?Q w2 (snd (createContainer w2 name cfg h E))"
    by (rule keeps_createContainer [OF stable_attached fresh_main])
  with c have "keeps ?Q w2 w'" by simp
  with k have "keeps ?Q w w'" by (rule keeps_trans)
  with old have "\<forall>c\<in>set (containers w'). named name c \<longrightarrow> attached c = E"
    by (simp add: keeps_def list_all_iff)
  moreover have "\<exists>c\<in>set (containers w'). ID c = cid \<and> named name c"
    using c by (rule createContainer_has)
  ultimately show ?thesis by simp
qed

subsection \<open>Reusing a container that matches\<close>






subsection \<open>The networks of the main container\<close>

text \<open>
  Claim C6.  For a workload whose name is not \<open>inspector\<close>: if \<open>DeployWorkload\<close> returns
  an id, and every container of the workload's name that the engine held before is
  attached to \<open>toolhive-<name>-internal\<close> and to nothing else (as when it held none), then
  the id is that of a container of the workload's name, and every container of that name
  is attached to \<open>toolhive-<name>-internal\<close> and to nothing else, so not to
  \<open>toolhive-external\<close>.
\<close>

theorem main_container_networks:
  assumes "name \<noteq> ''inspector''"
    and "\<forall>c\<in>set (containers w). named name c \<longrightarrow> attached c = [''toolhive-'' @ name @ ''-internal'']"
    and "fst (DeployWorkload w img name cmd env labels prof tt opts) = Inr cid"
  shows "(\<exists>c\<in>set (containers (snd (DeployWorkload w img name cmd env labels prof tt opts))).
            ID c = cid \<and> named name c \<and> attached c = [''toolhive-'' @ name @ ''-internal''])
       \<and> (\<forall>c\<in>set (containers (snd (DeployWorkload w img name cmd env labels prof tt opts))).
            named name c \<longrightarrow> attached c = [''toolhive-'' @ name @ ''-internal'']
                              \<and> ''toolhive-external'' \<notin> set (attached c))"
proof -
  let ?E = "[''toolhive-'' @ name @ ''-internal'']"
  let ?w' = "snd (DeployWorkload w img name cmd env labels prof tt opts)"
  have res: "DeployWorkload w img name cmd env labels prof tt opts = (Inr cid, ?w')"
    using assms(3) by (metis prod.collapse)
  have E: "?E = (if name = ''inspector'' then [''toolhive-'' @ name @ ''-internal'', ''toolhive-external'']
                 else [''toolhive-'' @ name @ ''-internal''])"
    using assms(1) by simp
  have d: "(\<exists>c\<in>set (containers ?w'). ID c = cid \<and> named name c)
         \<and> (\<forall>c\<in>set (containers ?w'). named name c \<longrightarrow> attached c = ?E)"
    using assms(2) E res by (rule deployed_networks)
  have "length (''toolhive-'' @ name @ ''-internal'') \<noteq> length ''toolhive-external''"
    by simp
  then have ne: "''toolhive-external'' \<notin> set ?E"
    by (metis empty_iff empty_set set_ConsD)
  from d ne show ?thesis by metis
qed

theorem main_container_networks_witness:
  "list_ex (\<lambda>c. ID c = ''id2'' \<and> named ''fetch'' c \<and> attached c = [''toolhive-fetch-internal''])
     (containers deployed_world)
   \<and> list_all (\<lambda>c. attached c = [''toolhive-fetch-internal'']
                     \<and> ''toolhive-external'' \<notin> set (attached c))
       (filter (named ''fetch'') (containers deployed_world))"
proof -
  have 1: "''fetch'' \<noteq> ''inspector''" by simp
  have 2: "\<forall>c\<in>set (containers fresh_world).
             named ''fetch'' c \<longrightarrow> attached c = [''toolhive-'' @ ''fetch'' @ ''-internal'']"
    by (simp add: fresh_world_def)
  have 3: "fst (DeployWorkload fresh_world ''ghcr.io/example/fetch'' ''fetch'' [] (Some []) (Some [])
                  (Some one_host_profile) ''sse'' (Some port_options)) = Inr ''id2''"
    by code_simp
  show ?thesis
    using main_container_networks [OF 1 2 3]
    by (simp add: deployed_world_def list_all_iff list_ex_iff)
qed

text \<open>
  The workload named \<open>inspector\<close> is not an MCP workload: its container is attached to
  the external network as well.
\<close>

lemma inspector_networks:
  assumes "\<forall>c\<in>set (containers w). named ''inspector'' c
              \<longrightarrow> attached c = [''toolhive-inspector-internal'', ''toolhive-external'']"
    and "fst (DeployWorkload w img ''inspector'' cmd env labels prof tt opts) = Inr cid"
  shows "\<exists>c\<in>set (containers (snd (DeployWorkload w img ''inspector'' cmd env labels prof tt opts))).
            ID c = cid \<and> named ''inspector'' c
            \<and> attached c = [''toolhive-inspector-internal'', ''toolhive-external'']"
proof -
  let ?w' = "snd (DeployWorkload w img ''inspector'' cmd env labels prof tt opts)"
  have res: "DeployWorkload w img ''inspector'' cmd env labels prof tt opts = (Inr cid, ?w')"
    using assms(2) by (metis prod.collapse)
  have "(\<exists>c\<in>set (containers ?w'). ID c = cid \<and> named ''inspector'' c)
         \<and> (\<forall>c\<in>set (containers ?w'). named ''inspector'' c
               \<longrightarrow> attached c = [''toolhive-inspector-internal'', ''toolhive-external''])"
    using assms(1) _ res by (rule deployed_networks) simp
  then show ?thesis by metis
qed

text \<open>
  Two deployments whose main container is on the external network: the workload
  \<open>inspector\<close> on an empty engine, and the workload \<open>fetch\<close> on an engine that holds a
  matching container of that name on the external network, which is reused as it is
  (the comparison does not look at networks).
\<close>

theorem main_container_on_external_network:
  "fst (DeployWorkload fresh_world ''ghcr.io/example/inspector'' ''inspector'' [] (Some []) (Some [])
          (Some one_host_profile) ''inspector'' (Some port_options)) = Inr ''id0''
   \<and> map (\<lambda>c. (ID c, Name c, attached c))
        (containers (snd (DeployWorkload fresh_world ''ghcr.io/example/inspector'' ''inspector'' []
                            (Some []) (Some []) (Some one_host_profile) ''inspector'' (Some port_options))))
       = [(''id0'', ''/inspector'', [''toolhive-inspector-internal'', ''toolhive-external''])]
   \<and> fst (DeployWorkload stale_world ''ghcr.io/example/fetch'' ''fetch'' [] (Some []) (Some [])
            (Some one_host_profile) ''sse'' (Some port_options)) = Inr ''0afc''
   \<and> map (\<lambda>c. (ID c, Name c, attached c))
        (containers (snd (DeployWorkload stale_world ''ghcr.io/example/fetch'' ''fetch'' []
                            (Some []) (Some []) (Some one_host_profile) ''sse'' (Some port_options))))
       = [(''0afc'', ''/fetch'', [''toolhive-external'']),
          (''id0'', ''/fetch-dns'', [''toolhive-fetch-internal'', ''toolhive-external'']),
          (''id1'', ''/fetch-egress'', [''toolhive-fetch-internal'', ''toolhive-external''])]"
  by code_simp

subsection \<open>A first and a second deployment\<close>

text \<open>The three containers of the first deployment and the networks they are attached to.\<close>

lemma first_deployment:
  "fst (DeployWorkload fresh_world ''ghcr.io/example/fetch'' ''fetch'' [] (Some []) (Some [])
          (Some one_host_profile) ''sse'' (Some port_options)) = Inr ''id2''
   \<and> map (\<lambda>c. (ID c, Name c, attached c)) (containers deployed_world)
       = [(''id0'', ''/fetch-dns'', [''toolhive-fetch-internal'', ''toolhive-external'']),
          (''id1'', ''/fetch-egress'', [''toolhive-fetch-internal'', ''toolhive-external'']),
          (''id2'', ''/fetch'', [''toolhive-fetch-internal''])]"
  by code_simp

text \<open>
  Deploying \<open>fetch\<close> a second time with the same arguments fails.  The configuration of
  the DNS container mounts the file that \<open>createTempSquidConf\<close> has just created, whose
  path differs from the one mounted before, so the DNS container is stopped and removed;
  \<open>RemoveWorkload\<close> then looks for the containers \<open>fetch-dns-egress\<close> and \<open>fetch-dns-dns\<close>,
  finds none, and asks for the removal of the empty id.
\<close>

lemma second_deployment:
  "(case fst (DeployWorkload deployed_world ''ghcr.io/example/fetch'' ''fetch'' [] (Some []) (Some [])
                (Some one_host_profile) ''sse'' (Some port_options)) of
      Inl e \<Rightarrow> True | Inr cid \<Rightarrow> False)
   \<and> filter is_churn
        (added_calls deployed_world
           (snd (DeployWorkload deployed_world ''ghcr.io/example/fetch'' ''fetch'' [] (Some [])
                   (Some []) (Some one_host_profile) ''sse'' (Some port_options))))
       = [ContainerStop ''id0'', ContainerRemove ''id0'']
   \<and> map (\<lambda>c. (ID c, Name c))
        (containers (snd (DeployWorkload deployed_world ''ghcr.io/example/fetch'' ''fetch'' []
                            (Some []) (Some []) (Some one_host_profile) ''sse'' (Some port_options))))
       = [(''id1'', ''/fetch-egress''), (''id2'', ''/fetch'')]"
  by code_simp

end
